theory Spec2Isabelle
  imports Main "HOL-Library.Char_ord" "HOL-Library.List_Lexorder"
begin

section \<open>Values shared by the models\<close>

text \<open>
  Users are referred to by primary key. A \<^verbatim>\<open>DecimalField\<close> with two decimal places is
  an integer number of hundredths, so \<open>100.00\<close> is \<open>10000\<close>. An exception raised by
  the code is a value of \<open>error\<close>.
\<close>

type_synonym user = nat

type_synonym decimal = int

datatype error = ValueError | IntegrityError | ValidationError | TypeError | NameError

text \<open>
  \<^verbatim>\<open>timezone.now()\<close>: the calendar year, which the number generator reads, and the
  instant within it.
\<close>

record datetime =
  year :: nat
  instant :: nat

text \<open>
  What a date-time attribute of a document holds: nothing (\<open>None\<close> of the option
  around it), a date-time, as every stored row does, or the string that
  \<^verbatim>\<open>request._get_raw_host()\<close> returned, after a view has assigned it.
\<close>

datatype dt_value = DateTime datetime | RawHost string

section \<open>The ORM's save\<close>

text \<open>
  A \<^verbatim>\<open>DateTimeField\<close> converts its attribute when the row is written: \<^verbatim>\<open>None\<close> and a
  date-time are kept, a string has to read as a date or a date-time. The name of a host,
  with or without a port, does not, so an attribute that holds the host string of the
  request raises \<^verbatim>\<open>ValidationError\<close>.
\<close>

fun to_python :: "dt_value option \<Rightarrow> error + datetime option" where
  "to_python None = Inr None"
| "to_python (Some (DateTime t)) = Inr (Some t)"
| "to_python (Some (RawHost host)) = Inl ValidationError"

definition convertible :: "dt_value option \<Rightarrow> bool" where
  "convertible v = (case to_python v of Inl e \<Rightarrow> False | Inr t \<Rightarrow> True)"

text \<open>
  \<^verbatim>\<open>super().save()\<close> of a model instance. The column values are converted first, which
  is where a date-time column can raise. Then a row whose primary key is already in the
  table is replaced, any other instance is inserted (under a fresh key when it has none).
  A \<^verbatim>\<open>unique\<close> column (or \<^verbatim>\<open>unique_together\<close> group) refuses a value that another
  row holds; a key of \<open>None\<close> is an SQL \<^verbatim>\<open>NULL\<close>, which never conflicts.
\<close>

definition next_pk :: "nat option list \<Rightarrow> nat" where
  "next_pk ks = Suc (fold max (map (\<lambda>k. case k of None \<Rightarrow> 0 | Some n \<Rightarrow> n) ks) 0)"

definition model_save ::
  "('r \<Rightarrow> nat option) \<Rightarrow> (nat \<Rightarrow> 'r \<Rightarrow> 'r) \<Rightarrow> ('r \<Rightarrow> 'k option) \<Rightarrow> ('r \<Rightarrow> dt_value option list)
    \<Rightarrow> 'r \<Rightarrow> 'r list \<Rightarrow> error + ('r \<times> 'r list)" where
  "model_save get_pk set_pk ukey datetimes r tbl =
     (if \<not> list_all convertible (datetimes r)
      then Inl ValidationError
      else if ukey r \<noteq> None \<and> list_ex (\<lambda>x. get_pk x \<noteq> get_pk r \<and> ukey x = ukey r) tbl
      then Inl IntegrityError
      else if get_pk r \<noteq> None \<and> get_pk r \<in> set (map get_pk tbl)
      then Inr (r, map (\<lambda>x. if get_pk x = get_pk r then r else x) tbl)
      else (case get_pk r of
              Some k \<Rightarrow> Inr (r, tbl @ [r])
            | None \<Rightarrow> Inr (set_pk (next_pk (map get_pk tbl)) r,
                          tbl @ [set_pk (next_pk (map get_pk tbl)) r])))"

section \<open>inventory/models.py: Stock\<close>

record stock =
  pk :: "nat option"
  product_id :: nat
  warehouse_id :: nat
  location_id :: nat
  quantity_available :: nat
  quantity_reserved :: nat
  quantity_allocated :: nat
  lot_number :: "string option"
  unit_cost :: "decimal option"
  total_value :: "decimal option"

definition quantity_total :: "stock \<Rightarrow> nat" where
  "quantity_total self =
     stock.quantity_available self + stock.quantity_reserved self + stock.quantity_allocated self"

text \<open>
  \<^verbatim>\<open>unique_together = ['product', 'warehouse', 'location', 'lot_number']\<close>; a row without
  lot number has a \<^verbatim>\<open>NULL\<close> in the group.
\<close>

definition stock_unique :: "stock \<Rightarrow> (nat \<times> nat \<times> nat \<times> string) option" where
  "stock_unique s =
     (case stock.lot_number s of
        None \<Rightarrow> None
      | Some l \<Rightarrow> Some (stock.product_id s, stock.warehouse_id s, stock.location_id s, l))"

text \<open>
  \<^verbatim>\<open>Stock.save\<close>. The condition \<^verbatim>\<open>self.unit_cost and self.quantity_total\<close> is Python
  truthiness: false for \<^verbatim>\<open>None\<close>, for a zero decimal and for a zero total. The record
  has no date-time column.
\<close>

definition Stock_save :: "stock \<Rightarrow> stock list \<Rightarrow> error + (stock \<times> stock list)" where
  "Stock_save self tbl =
     model_save stock.pk (\<lambda>k s. s\<lparr>stock.pk := Some k\<rparr>) stock_unique (\<lambda>s. [])
       (case stock.unit_cost self of
          None \<Rightarrow> self
        | Some c \<Rightarrow>
            if c \<noteq> 0 \<and> quantity_total self \<noteq> 0
            then self\<lparr>stock.total_value := Some (c * int (quantity_total self))\<rparr>
            else self)
       tbl"

section \<open>Python string operations\<close>

text \<open>\<^verbatim>\<open>str(n)\<close> of a non-negative integer, and the format \<^verbatim>\<open>f'{n:03d}'\<close>.\<close>

definition digit_char :: "nat \<Rightarrow> char" where
  "digit_char d = char_of (48 + d)"

fun str_nat :: "nat \<Rightarrow> string" where
  "str_nat n = (if n < 10 then [digit_char n] else str_nat (n div 10) @ [digit_char (n mod 10)])"

declare str_nat.simps [simp del]

definition fmt_03d :: "nat \<Rightarrow> string" where
  "fmt_03d n = replicate (3 - length (str_nat n)) CHR ''0'' @ str_nat n"

text \<open>\<^verbatim>\<open>s.startswith(p)\<close> and \<^verbatim>\<open>s.split(sep)\<close> for a one-character separator.\<close>

definition startswith :: "string \<Rightarrow> string \<Rightarrow> bool" where
  "startswith s p = (take (length p) s = p)"

fun str_split :: "char \<Rightarrow> string \<Rightarrow> string list" where
  "str_split sep [] = [[]]"
| "str_split sep (c # cs) =
     (if c = sep then [] # str_split sep cs
      else (case str_split sep cs of
              [] \<Rightarrow> [[c]]
            | w # ws \<Rightarrow> (c # w) # ws))"

text \<open>
  \<^verbatim>\<open>int(s)\<close> on a non-empty string of decimal digits; any other string is a
  \<^verbatim>\<open>ValueError\<close> here. (Python also accepts a sign, surrounding white space and
  underscores between digits; no generated number contains them, and the serializers
  make the number columns read-only.)
\<close>

definition is_digit :: "char \<Rightarrow> bool" where
  "is_digit c = (CHR ''0'' \<le> c \<and> c \<le> CHR ''9'')"

definition py_int :: "string \<Rightarrow> error + nat" where
  "py_int s =
     (if s \<noteq> [] \<and> list_all is_digit s
      then Inr (foldl (\<lambda>a c. 10 * a + (of_char c - 48)) 0 s)
      else Inl ValueError)"

section \<open>The document number generator\<close>

text \<open>
  \<^verbatim>\<open>.order_by('-number').first()\<close>: the greatest number in the order of strings, or
  \<^verbatim>\<open>None\<close> for an empty queryset.
\<close>

definition order_by_desc_first :: "string list \<Rightarrow> string option" where
  "order_by_desc_first nos = (case nos of [] \<Rightarrow> None | n # ns \<Rightarrow> Some (fold max ns n))"

text \<open>
  The block that the six \<^verbatim>\<open>save\<close> methods share, for the prefix of the model
  (\<^verbatim>\<open>ADJ\<close>, \<^verbatim>\<open>TRF\<close>, \<^verbatim>\<open>RCV\<close>, \<^verbatim>\<open>SHP\<close>, \<^verbatim>\<open>RTN\<close>, \<^verbatim>\<open>ORD\<close>) over the number
  column of the model's table.
\<close>

definition next_number :: "string \<Rightarrow> datetime \<Rightarrow> string list \<Rightarrow> error + string" where
  "next_number prefix now nos =
     (case order_by_desc_first
             (filter (\<lambda>n. startswith n (prefix @ ''-'' @ str_nat (year now) @ ''-'')) nos) of
        None \<Rightarrow> Inr (prefix @ ''-'' @ str_nat (year now) @ ''-'' @ fmt_03d 1)
      | Some last_no \<Rightarrow>
          (case py_int (last (str_split CHR ''-'' last_no)) of
             Inl e \<Rightarrow> Inl e
           | Inr last_num \<Rightarrow>
               Inr (prefix @ ''-'' @ str_nat (year now) @ ''-'' @ fmt_03d (last_num + 1))))"

text \<open>
  A \<^verbatim>\<open>save\<close> with number generation: the number is generated only when the instance
  has none (\<^verbatim>\<open>if not self.number\<close>), and the column is \<^verbatim>\<open>unique\<close>.
\<close>

definition document_save ::
  "string \<Rightarrow> ('r \<Rightarrow> string) \<Rightarrow> (string \<Rightarrow> 'r \<Rightarrow> 'r) \<Rightarrow> ('r \<Rightarrow> nat option) \<Rightarrow> (nat \<Rightarrow> 'r \<Rightarrow> 'r)
    \<Rightarrow> ('r \<Rightarrow> dt_value option list) \<Rightarrow> datetime \<Rightarrow> 'r \<Rightarrow> 'r list \<Rightarrow> error + ('r \<times> 'r list)" where
  "document_save prefix get_no set_no get_pk set_pk datetimes now self tbl =
     (if get_no self = []
      then (case next_number prefix now (map get_no tbl) of
              Inl e \<Rightarrow> Inl e
            | Inr no \<Rightarrow>
                model_save get_pk set_pk (\<lambda>r. Some (get_no r)) datetimes (set_no no self) tbl)
      else model_save get_pk set_pk (\<lambda>r. Some (get_no r)) datetimes self tbl)"

text \<open>Creating documents one after the other; the first exception ends the run.\<close>

fun create_all ::
  "('r \<Rightarrow> 'r list \<Rightarrow> error + ('r \<times> 'r list)) \<Rightarrow> 'r list \<Rightarrow> 'r list \<Rightarrow> error + 'r list" where
  "create_all save [] tbl = Inr tbl"
| "create_all save (x # xs) tbl =
     (case save x tbl of
        Inl e \<Rightarrow> Inl e
      | Inr (_, tbl') \<Rightarrow> create_all save xs tbl')"

section \<open>inventory/models.py: Adjustment and Transfer\<close>

text \<open>
  The records hold the key, the number, the workflow columns and the columns that say
  what is moved. Descriptive columns, the audit stamps of \<^verbatim>\<open>AuditFields\<close> and the
  date-times that the ORM sets itself (\<^verbatim>\<open>auto_now_add\<close>), which no modelled method reads
  or assigns, are left out. For each model, \<open>_fields\<close> lists the names of all its
  fields, as the filter backend sees them, and \<open>_datetimes\<close> the date-time columns
  of the record.
\<close>

record adjustment =
  pk :: "nat option"
  adjustment_no :: string
  product_id :: nat
  warehouse_id :: nat
  location_id :: nat
  previous_qty :: int
  adjusted_qty :: int
  adjustment_type :: string
  adjusted_by :: user
  approved_by :: "user option"
  approved_at :: "dt_value option"

definition Adjustment_fields :: "string list" where
  "Adjustment_fields =
     [''id'', ''created_at'', ''updated_at'', ''created_by'', ''updated_by'',
      ''adjustment_no'', ''product_id'', ''warehouse_id'', ''location_id'',
      ''previous_qty'', ''adjusted_qty'', ''adjustment_type'', ''category'', ''reason'',
      ''adjusted_by'', ''approved_by'', ''approved_at'', ''cost_impact'']"

definition Adjustment_datetimes :: "adjustment \<Rightarrow> dt_value option list" where
  "Adjustment_datetimes self = [adjustment.approved_at self]"

definition Adjustment_save ::
  "datetime \<Rightarrow> adjustment \<Rightarrow> adjustment list \<Rightarrow> error + (adjustment \<times> adjustment list)" where
  "Adjustment_save =
     document_save ''ADJ'' adjustment.adjustment_no (\<lambda>n r. r\<lparr>adjustment.adjustment_no := n\<rparr>)
       adjustment.pk (\<lambda>k r. r\<lparr>adjustment.pk := Some k\<rparr>) Adjustment_datetimes"

record transfer =
  pk :: "nat option"
  transfer_no :: string
  from_warehouse_id :: nat
  from_location_id :: nat
  to_warehouse_id :: nat
  to_location_id :: nat
  product_id :: nat
  quantity :: nat
  requested_by :: user
  approved_by :: "user option"
  transferred_by :: "user option"
  status :: string
  approved_at :: "dt_value option"
  transferred_at :: "dt_value option"


definition Transfer_fields :: "string list" where
  "Transfer_fields =
     [''id'', ''created_at'', ''updated_at'', ''created_by'', ''updated_by'',
      ''transfer_no'', ''from_warehouse_id'', ''from_location_id'', ''to_warehouse_id'',
      ''to_location_id'', ''product_id'', ''quantity'', ''unit_cost'', ''requested_by'',
      ''approved_by'', ''transferred_by'', ''status'', ''requested_at'', ''approved_at'',
      ''transferred_at'', ''notes'']"

definition Transfer_datetimes :: "transfer \<Rightarrow> dt_value option list" where
  "Transfer_datetimes self = [transfer.approved_at self, transfer.transferred_at self]"

definition Transfer_save ::
  "datetime \<Rightarrow> transfer \<Rightarrow> transfer list \<Rightarrow> error + (transfer \<times> transfer list)" where
  "Transfer_save =
     document_save ''TRF'' transfer.transfer_no (\<lambda>n r. r\<lparr>transfer.transfer_no := n\<rparr>)
       transfer.pk (\<lambda>k r. r\<lparr>transfer.pk := Some k\<rparr>) Transfer_datetimes"

section \<open>operations/models.py: Receiving, Shipment, Return and Order\<close>

record receiving =
  pk :: "nat option"
  receiving_no :: string
  received_by :: user
  status :: string
  inspected_by :: "user option"
  inspected_at :: "dt_value option"
  approved_by :: "user option"
  approved_at :: "dt_value option"
  rejection_reason :: "string option"

definition Receiving_fields :: "string list" where
  "Receiving_fields =
     [''id'', ''created_at'', ''updated_at'', ''created_by'', ''updated_by'',
      ''receiving_no'', ''supplier_id'', ''purchase_order_no'', ''warehouse_id'',
      ''location_id'', ''received_by'', ''received_at'', ''status'', ''inspected_by'',
      ''inspected_at'', ''approved_by'', ''approved_at'', ''notes'', ''rejection_reason'']"

definition Receiving_datetimes :: "receiving \<Rightarrow> dt_value option list" where
  "Receiving_datetimes self = [receiving.inspected_at self, receiving.approved_at self]"

definition Receiving_save ::
  "datetime \<Rightarrow> receiving \<Rightarrow> receiving list \<Rightarrow> error + (receiving \<times> receiving list)" where
  "Receiving_save =
     document_save ''RCV'' receiving.receiving_no (\<lambda>n r. r\<lparr>receiving.receiving_no := n\<rparr>)
       receiving.pk (\<lambda>k r. r\<lparr>receiving.pk := Some k\<rparr>) Receiving_datetimes"

record shipment =
  pk :: "nat option"
  shipment_no :: string
  packed_by :: user
  packed_at :: "dt_value option"
  shipped_by :: "user option"
  shipped_at :: "dt_value option"
  delivered_at :: "dt_value option"
  carrier :: "string option"
  tracking_number :: "string option"
  status :: string

definition Shipment_fields :: "string list" where
  "Shipment_fields =
     [''id'', ''created_at'', ''updated_at'', ''created_by'', ''updated_by'',
      ''shipment_no'', ''order_no'', ''customer_name'', ''customer_address'',
      ''warehouse_id'', ''location_id'', ''packed_by'', ''packed_at'', ''shipped_by'',
      ''shipped_at'', ''delivered_at'', ''carrier'', ''tracking_number'', ''status'',
      ''notes'']"

definition Shipment_datetimes :: "shipment \<Rightarrow> dt_value option list" where
  "Shipment_datetimes self = [shipment.packed_at self, shipment.shipped_at self, shipment.delivered_at self]"

definition Shipment_save ::
  "datetime \<Rightarrow> shipment \<Rightarrow> shipment list \<Rightarrow> error + (shipment \<times> shipment list)" where
  "Shipment_save =
     document_save ''SHP'' shipment.shipment_no (\<lambda>n r. r\<lparr>shipment.shipment_no := n\<rparr>)
       shipment.pk (\<lambda>k r. r\<lparr>shipment.pk := Some k\<rparr>) Shipment_datetimes"

text \<open>\<^verbatim>\<open>refund_amount\<close> holds the payload value as the request carried it.\<close>

record return =
  pk :: "nat option"
  return_no :: string
  received_by :: user
  inspected_by :: "user option"
  inspected_at :: "dt_value option"
  approved_by :: "user option"
  approved_at :: "dt_value option"
  processed_by :: "user option"
  processed_at :: "dt_value option"
  status :: string
  refund_amount :: "string option"

definition Return_fields :: "string list" where
  "Return_fields =
     [''id'', ''created_at'', ''updated_at'', ''created_by'', ''updated_by'',
      ''return_no'', ''original_order_no'', ''customer_name'', ''customer_address'',
      ''return_reason'', ''received_by'', ''received_at'', ''inspected_by'',
      ''inspected_at'', ''approved_by'', ''approved_at'', ''processed_by'',
      ''processed_at'', ''status'', ''refund_amount'', ''notes'', ''rejection_reason'']"

definition Return_datetimes :: "return \<Rightarrow> dt_value option list" where
  "Return_datetimes self = [return.inspected_at self, return.approved_at self, return.processed_at self]"

definition Return_save ::
  "datetime \<Rightarrow> return \<Rightarrow> return list \<Rightarrow> error + (return \<times> return list)" where
  "Return_save =
     document_save ''RTN'' return.return_no (\<lambda>n r. r\<lparr>return.return_no := n\<rparr>)
       return.pk (\<lambda>k r. r\<lparr>return.pk := Some k\<rparr>) Return_datetimes"

record order =
  pk :: "nat option"
  order_no :: string
  status :: string
  subtotal :: decimal
  tax_amount :: decimal
  shipping_amount :: decimal
  discount_amount :: decimal
  total_amount :: decimal
  processed_by :: "user option"
  processed_at :: "dt_value option"
  shipped_at :: "dt_value option"
  delivered_at :: "dt_value option"

text \<open>
  \<^verbatim>\<open>Order.save\<close>: the number block first (an exception there ends the call), then the
  total, then the ORM's save.
\<close>

definition Order_fields :: "string list" where
  "Order_fields =
     [''id'', ''created_at'', ''updated_at'', ''created_by'', ''updated_by'', ''order_no'',
      ''customer_name'', ''customer_email'', ''customer_phone'', ''customer_address'',
      ''order_type'', ''status'', ''subtotal'', ''tax_amount'', ''shipping_amount'',
      ''discount_amount'', ''total_amount'', ''processed_by'', ''processed_at'',
      ''shipped_at'', ''delivered_at'', ''customer_notes'', ''internal_notes'']"

definition Order_datetimes :: "order \<Rightarrow> dt_value option list" where
  "Order_datetimes self = [order.processed_at self, order.shipped_at self, order.delivered_at self]"

definition Order_save ::
  "datetime \<Rightarrow> order \<Rightarrow> order list \<Rightarrow> error + (order \<times> order list)" where
  "Order_save now self tbl =
     (case (if order.order_no self = []
            then (case next_number ''ORD'' now (map order.order_no tbl) of
                    Inl e \<Rightarrow> Inl e
                  | Inr no \<Rightarrow> Inr (self\<lparr>order.order_no := no\<rparr>))
            else Inr self) of
        Inl e \<Rightarrow> Inl e
      | Inr numbered \<Rightarrow>
          model_save order.pk (\<lambda>k r. r\<lparr>order.pk := Some k\<rparr>) (\<lambda>r. Some (order.order_no r))
            Order_datetimes
            (numbered\<lparr>order.total_amount :=
               order.subtotal numbered + order.tax_amount numbered
                 + order.shipping_amount numbered - order.discount_amount numbered\<rparr>)
            tbl)"

section \<open>master/models.py and the stock buffer\<close>

record product =
  pk :: "nat option"
  name :: string
  sku :: string
  minimum_stock :: nat
  reorder_point :: nat

record warehouse =
  pk :: "nat option"
  name :: string

record stock_buffer =
  pk :: "nat option"
  product_id :: nat
  warehouse_id :: nat
  minimum_quantity :: nat

section \<open>Requests, responses and the database\<close>

text \<open>
  A request carries the authenticated user, the host string that
  \<^verbatim>\<open>request._get_raw_host()\<close> returns, and the payload \<^verbatim>\<open>request.data\<close>; it has no
  query parameters. A view answers 200 with the document (201 when it has created it),
  400 with a message, 404 when \<^verbatim>\<open>get_object\<close> finds no row, or 500 when an exception
  escapes.
\<close>

record request =
  user :: user
  raw_host :: string
  data :: "(string \<times> string) list"

datatype 'd response =
  Response200 'd | Response201 'd | Response400 string | Response404 | Response500 error

record db =
  products :: "product list"
  warehouses :: "warehouse list"
  stocks :: "stock list"
  stock_buffers :: "stock_buffer list"
  adjustments :: "adjustment list"
  transfers :: "transfer list"
  receivings :: "receiving list"
  shipments :: "shipment list"
  returns :: "return list"
  orders :: "order list"

text \<open>
  \<^verbatim>\<open>get_object\<close> passes the queryset through the \<^verbatim>\<open>DjangoFilterBackend\<close> before it
  looks the key up. The backend builds a filter set from \<^verbatim>\<open>filterset_fields\<close> and
  raises \<^verbatim>\<open>TypeError\<close> when one of the names is not a field of the model; without query
  parameters it filters nothing.
\<close>

definition filter_queryset :: "string list \<Rightarrow> string list \<Rightarrow> 'r list \<Rightarrow> error + 'r list" where
  "filter_queryset filterset_fields model_fields queryset =
     (if list_all (\<lambda>f. f \<in> set model_fields) filterset_fields
      then Inr queryset
      else Inl TypeError)"

definition get_object ::
  "string list \<Rightarrow> string list \<Rightarrow> ('r \<Rightarrow> nat option) \<Rightarrow> nat \<Rightarrow> 'r list \<Rightarrow> error + 'r option" where
  "get_object filterset_fields model_fields get_pk k tbl =
     (case filter_queryset filterset_fields model_fields tbl of
        Inl e \<Rightarrow> Inl e
      | Inr queryset \<Rightarrow> Inr (find (\<lambda>r. get_pk r = Some k) queryset))"

text \<open>
  \<^verbatim>\<open>serializer.data\<close>. The two serializers of \<^verbatim>\<open>inventory/serializers.py\<close> render the
  document. Each of the four of \<^verbatim>\<open>operations/serializers.py\<close> has a method field
  \<^verbatim>\<open>get_total_quantity\<close> that calls \<^verbatim>\<open>Sum\<close>, a name the module does not import, so
  rendering raises \<^verbatim>\<open>NameError\<close>.
\<close>

definition AdjustmentSerializer_data :: "adjustment \<Rightarrow> error + adjustment" where
  "AdjustmentSerializer_data obj = Inr obj"

definition TransferSerializer_data :: "transfer \<Rightarrow> error + transfer" where
  "TransferSerializer_data obj = Inr obj"

definition ReceivingSerializer_data :: "receiving \<Rightarrow> error + receiving" where
  "ReceivingSerializer_data obj = Inl NameError"

definition ShipmentSerializer_data :: "shipment \<Rightarrow> error + shipment" where
  "ShipmentSerializer_data obj = Inl NameError"

definition ReturnSerializer_data :: "return \<Rightarrow> error + return" where
  "ReturnSerializer_data obj = Inl NameError"

definition OrderSerializer_data :: "order \<Rightarrow> error + order" where
  "OrderSerializer_data obj = Inl NameError"

text \<open>
  The end of every transition: \<^verbatim>\<open>save()\<close>, then the serialized document. An exception
  of the save leaves the database as it was; an exception of the serializer comes after
  the row has been written.
\<close>

definition respond ::
  "error + ('r \<times> 'r list) \<Rightarrow> ('r \<Rightarrow> error + 'r) \<Rightarrow> ('r list \<Rightarrow> db) \<Rightarrow> db \<Rightarrow> 'r response \<times> db" where
  "respond saved serializer_data store d =
     (case saved of
        Inl e \<Rightarrow> (Response500 e, d)
      | Inr (r, tbl) \<Rightarrow>
          (case serializer_data r of
             Inl e \<Rightarrow> (Response500 e, store tbl)
           | Inr rendered \<Rightarrow> (Response200 rendered, store tbl)))"

section \<open>inventory/views.py: AdjustmentViewSet and TransferViewSet\<close>

text \<open>
  \<^verbatim>\<open>if adjustment.approved_by:\<close> tests a model instance, which is true whenever the
  column is not \<^verbatim>\<open>NULL\<close>. Every transition assigns \<^verbatim>\<open>request._get_raw_host()\<close> to
  its date-time column (the comment beside it reads \<^verbatim>\<open># Use timezone.now()\<close>).
\<close>

definition AdjustmentViewSet_filterset_fields :: "string list" where
  "AdjustmentViewSet_filterset_fields = [''adjustment_type'', ''category'', ''status'', ''adjusted_by'', ''approved_by'']"

definition AdjustmentViewSet_approve ::
  "datetime \<Rightarrow> request \<Rightarrow> nat \<Rightarrow> db \<Rightarrow> adjustment response \<times> db" where
  "AdjustmentViewSet_approve now request k d =
     (case get_object AdjustmentViewSet_filterset_fields Adjustment_fields adjustment.pk k (adjustments d) of
        Inl e \<Rightarrow> (Response500 e, d)
      | Inr None \<Rightarrow> (Response404, d)
      | Inr (Some adjustment) \<Rightarrow>
          if adjustment.approved_by adjustment \<noteq> None
          then (Response400 ''Adjustment already approved'', d)
          else respond
                 (Adjustment_save now
                    (adjustment\<lparr>adjustment.approved_by := Some (user request),
                                adjustment.approved_at := Some (RawHost (raw_host request))\<rparr>)
                    (adjustments d))
                 AdjustmentSerializer_data (\<lambda>tbl. d\<lparr>adjustments := tbl\<rparr>) d)"

definition TransferViewSet_filterset_fields :: "string list" where
  "TransferViewSet_filterset_fields = [''status'', ''from_warehouse_id'', ''to_warehouse_id'', ''requested_by'']"

definition TransferViewSet_approve ::
  "datetime \<Rightarrow> request \<Rightarrow> nat \<Rightarrow> db \<Rightarrow> transfer response \<times> db" where
  "TransferViewSet_approve now request k d =
     (case get_object TransferViewSet_filterset_fields Transfer_fields transfer.pk k (transfers d) of
        Inl e \<Rightarrow> (Response500 e, d)
      | Inr None \<Rightarrow> (Response404, d)
      | Inr (Some transfer) \<Rightarrow>
          if transfer.status transfer \<noteq> ''pending''
          then (Response400 ''Transfer is not pending'', d)
          else respond
                 (Transfer_save now
                    (transfer\<lparr>transfer.approved_by := Some (user request),
                              transfer.approved_at := Some (RawHost (raw_host request)),
                              transfer.status := ''approved''\<rparr>)
                    (transfers d))
                 TransferSerializer_data (\<lambda>tbl. d\<lparr>transfers := tbl\<rparr>) d)"

definition TransferViewSet_execute ::
  "datetime \<Rightarrow> request \<Rightarrow> nat \<Rightarrow> db \<Rightarrow> transfer response \<times> db" where
  "TransferViewSet_execute now request k d =
     (case get_object TransferViewSet_filterset_fields Transfer_fields transfer.pk k (transfers d) of
        Inl e \<Rightarrow> (Response500 e, d)
      | Inr None \<Rightarrow> (Response404, d)
      | Inr (Some transfer) \<Rightarrow>
          if transfer.status transfer \<noteq> ''approved''
          then (Response400 ''Transfer must be approved first'', d)
          else respond
                 (Transfer_save now
                    (transfer\<lparr>transfer.transferred_by := Some (user request),
                              transfer.transferred_at := Some (RawHost (raw_host request)),
                              transfer.status := ''completed''\<rparr>)
                    (transfers d))
                 TransferSerializer_data (\<lambda>tbl. d\<lparr>transfers := tbl\<rparr>) d)"

section \<open>operations/views.py\<close>

definition ReceivingViewSet_filterset_fields :: "string list" where
  "ReceivingViewSet_filterset_fields = [''status'', ''supplier_id'', ''received_by'', ''approved_by'']"

definition ReceivingViewSet_inspect ::
  "datetime \<Rightarrow> request \<Rightarrow> nat \<Rightarrow> db \<Rightarrow> receiving response \<times> db" where
  "ReceivingViewSet_inspect now request k d =
     (case get_object ReceivingViewSet_filterset_fields Receiving_fields receiving.pk k (receivings d) of
        Inl e \<Rightarrow> (Response500 e, d)
      | Inr None \<Rightarrow> (Response404, d)
      | Inr (Some receiving) \<Rightarrow>
          respond
                 (Receiving_save now
                    (receiving\<lparr>receiving.inspected_by := Some (user request),
                               receiving.inspected_at := Some (RawHost (raw_host request)),
                               receiving.status := ''inspected''\<rparr>)
                    (receivings d))
                 ReceivingSerializer_data (\<lambda>tbl. d\<lparr>receivings := tbl\<rparr>) d)"

definition ReceivingViewSet_approve ::
  "datetime \<Rightarrow> request \<Rightarrow> nat \<Rightarrow> db \<Rightarrow> receiving response \<times> db" where
  "ReceivingViewSet_approve now request k d =
     (case get_object ReceivingViewSet_filterset_fields Receiving_fields receiving.pk k (receivings d) of
        Inl e \<Rightarrow> (Response500 e, d)
      | Inr None \<Rightarrow> (Response404, d)
      | Inr (Some receiving) \<Rightarrow>
          respond
                 (Receiving_save now
                    (receiving\<lparr>receiving.approved_by := Some (user request),
                               receiving.approved_at := Some (RawHost (raw_host request)),
                               receiving.status := ''approved''\<rparr>)
                    (receivings d))
                 ReceivingSerializer_data (\<lambda>tbl. d\<lparr>receivings := tbl\<rparr>) d)"

text \<open>\<^verbatim>\<open>request.data.get('reason', '')\<close>: the empty string when the key is absent.\<close>

definition ReceivingViewSet_reject ::
  "datetime \<Rightarrow> request \<Rightarrow> nat \<Rightarrow> db \<Rightarrow> receiving response \<times> db" where
  "ReceivingViewSet_reject now request k d =
     (case get_object ReceivingViewSet_filterset_fields Receiving_fields receiving.pk k (receivings d) of
        Inl e \<Rightarrow> (Response500 e, d)
      | Inr None \<Rightarrow> (Response404, d)
      | Inr (Some receiving) \<Rightarrow>
          respond
                 (Receiving_save now
                    (receiving\<lparr>receiving.status := ''rejected'',
                               receiving.rejection_reason :=
                             Some (case map_of (data request) ''reason'' of
                                     None \<Rightarrow> [] | Some v \<Rightarrow> v)\<rparr>)
                    (receivings d))
                 ReceivingSerializer_data (\<lambda>tbl. d\<lparr>receivings := tbl\<rparr>) d)"

definition ShipmentViewSet_filterset_fields :: "string list" where
  "ShipmentViewSet_filterset_fields = [''status'', ''packed_by'', ''shipped_by'']"

definition ShipmentViewSet_pack ::
  "datetime \<Rightarrow> request \<Rightarrow> nat \<Rightarrow> db \<Rightarrow> shipment response \<times> db" where
  "ShipmentViewSet_pack now request k d =
     (case get_object ShipmentViewSet_filterset_fields Shipment_fields shipment.pk k (shipments d) of
        Inl e \<Rightarrow> (Response500 e, d)
      | Inr None \<Rightarrow> (Response404, d)
      | Inr (Some shipment) \<Rightarrow>
          respond
                 (Shipment_save now
                    (shipment\<lparr>shipment.packed_at := Some (RawHost (raw_host request)),
                              shipment.status := ''packed''\<rparr>)
                    (shipments d))
                 ShipmentSerializer_data (\<lambda>tbl. d\<lparr>shipments := tbl\<rparr>) d)"

definition ShipmentViewSet_ship ::
  "datetime \<Rightarrow> request \<Rightarrow> nat \<Rightarrow> db \<Rightarrow> shipment response \<times> db" where
  "ShipmentViewSet_ship now request k d =
     (case get_object ShipmentViewSet_filterset_fields Shipment_fields shipment.pk k (shipments d) of
        Inl e \<Rightarrow> (Response500 e, d)
      | Inr None \<Rightarrow> (Response404, d)
      | Inr (Some shipment) \<Rightarrow>
          respond
                 (Shipment_save now
                    (shipment\<lparr>shipment.shipped_by := Some (user request),
                              shipment.shipped_at := Some (RawHost (raw_host request)),
                              shipment.carrier := map_of (data request) ''carrier'',
                              shipment.tracking_number := map_of (data request) ''tracking_number'',
                              shipment.status := ''shipped''\<rparr>)
                    (shipments d))
                 ShipmentSerializer_data (\<lambda>tbl. d\<lparr>shipments := tbl\<rparr>) d)"

definition ShipmentViewSet_deliver ::
  "datetime \<Rightarrow> request \<Rightarrow> nat \<Rightarrow> db \<Rightarrow> shipment response \<times> db" where
  "ShipmentViewSet_deliver now request k d =
     (case get_object ShipmentViewSet_filterset_fields Shipment_fields shipment.pk k (shipments d) of
        Inl e \<Rightarrow> (Response500 e, d)
      | Inr None \<Rightarrow> (Response404, d)
      | Inr (Some shipment) \<Rightarrow>
          respond
                 (Shipment_save now
                    (shipment\<lparr>shipment.delivered_at := Some (RawHost (raw_host request)),
                              shipment.status := ''delivered''\<rparr>)
                    (shipments d))
                 ShipmentSerializer_data (\<lambda>tbl. d\<lparr>shipments := tbl\<rparr>) d)"

definition ReturnViewSet_filterset_fields :: "string list" where
  "ReturnViewSet_filterset_fields = [''status'', ''return_reason'', ''received_by'', ''approved_by'']"

definition ReturnViewSet_inspect ::
  "datetime \<Rightarrow> request \<Rightarrow> nat \<Rightarrow> db \<Rightarrow> return response \<times> db" where
  "ReturnViewSet_inspect now request k d =
     (case get_object ReturnViewSet_filterset_fields Return_fields return.pk k (returns d) of
        Inl e \<Rightarrow> (Response500 e, d)
      | Inr None \<Rightarrow> (Response404, d)
      | Inr (Some return_record) \<Rightarrow>
          respond
                 (Return_save now
                    (return_record\<lparr>return.inspected_by := Some (user request),
                                   return.inspected_at := Some (RawHost (raw_host request)),
                                   return.status := ''inspected''\<rparr>)
                    (returns d))
                 ReturnSerializer_data (\<lambda>tbl. d\<lparr>returns := tbl\<rparr>) d)"

definition ReturnViewSet_approve ::
  "datetime \<Rightarrow> request \<Rightarrow> nat \<Rightarrow> db \<Rightarrow> return response \<times> db" where
  "ReturnViewSet_approve now request k d =
     (case get_object ReturnViewSet_filterset_fields Return_fields return.pk k (returns d) of
        Inl e \<Rightarrow> (Response500 e, d)
      | Inr None \<Rightarrow> (Response404, d)
      | Inr (Some return_record) \<Rightarrow>
          respond
                 (Return_save now
                    (return_record\<lparr>return.approved_by := Some (user request),
                                   return.approved_at := Some (RawHost (raw_host request)),
                                   return.refund_amount := map_of (data request) ''refund_amount'',
                                   return.status := ''approved''\<rparr>)
                    (returns d))
                 ReturnSerializer_data (\<lambda>tbl. d\<lparr>returns := tbl\<rparr>) d)"

definition ReturnViewSet_process ::
  "datetime \<Rightarrow> request \<Rightarrow> nat \<Rightarrow> db \<Rightarrow> return response \<times> db" where
  "ReturnViewSet_process now request k d =
     (case get_object ReturnViewSet_filterset_fields Return_fields return.pk k (returns d) of
        Inl e \<Rightarrow> (Response500 e, d)
      | Inr None \<Rightarrow> (Response404, d)
      | Inr (Some return_record) \<Rightarrow>
          respond
                 (Return_save now
                    (return_record\<lparr>return.processed_by := Some (user request),
                                   return.processed_at := Some (RawHost (raw_host request)),
                                   return.status := ''processed''\<rparr>)
                    (returns d))
                 ReturnSerializer_data (\<lambda>tbl. d\<lparr>returns := tbl\<rparr>) d)"

definition OrderViewSet_filterset_fields :: "string list" where
  "OrderViewSet_filterset_fields = [''status'', ''order_type'', ''processed_by'']"

definition OrderViewSet_confirm ::
  "datetime \<Rightarrow> request \<Rightarrow> nat \<Rightarrow> db \<Rightarrow> order response \<times> db" where
  "OrderViewSet_confirm now request k d =
     (case get_object OrderViewSet_filterset_fields Order_fields order.pk k (orders d) of
        Inl e \<Rightarrow> (Response500 e, d)
      | Inr None \<Rightarrow> (Response404, d)
      | Inr (Some order) \<Rightarrow>
          respond
                 (Order_save now
                    (order\<lparr>order.status := ''confirmed''\<rparr>)
                    (orders d))
                 OrderSerializer_data (\<lambda>tbl. d\<lparr>orders := tbl\<rparr>) d)"

definition OrderViewSet_process ::
  "datetime \<Rightarrow> request \<Rightarrow> nat \<Rightarrow> db \<Rightarrow> order response \<times> db" where
  "OrderViewSet_process now request k d =
     (case get_object OrderViewSet_filterset_fields Order_fields order.pk k (orders d) of
        Inl e \<Rightarrow> (Response500 e, d)
      | Inr None \<Rightarrow> (Response404, d)
      | Inr (Some order) \<Rightarrow>
          respond
                 (Order_save now
                    (order\<lparr>order.processed_by := Some (user request),
                           order.processed_at := Some (RawHost (raw_host request)),
                           order.status := ''processing''\<rparr>)
                    (orders d))
                 OrderSerializer_data (\<lambda>tbl. d\<lparr>orders := tbl\<rparr>) d)"

definition OrderViewSet_ship ::
  "datetime \<Rightarrow> request \<Rightarrow> nat \<Rightarrow> db \<Rightarrow> order response \<times> db" where
  "OrderViewSet_ship now request k d =
     (case get_object OrderViewSet_filterset_fields Order_fields order.pk k (orders d) of
        Inl e \<Rightarrow> (Response500 e, d)
      | Inr None \<Rightarrow> (Response404, d)
      | Inr (Some order) \<Rightarrow>
          respond
                 (Order_save now
                    (order\<lparr>order.shipped_at := Some (RawHost (raw_host request)),
                           order.status := ''shipped''\<rparr>)
                    (orders d))
                 OrderSerializer_data (\<lambda>tbl. d\<lparr>orders := tbl\<rparr>) d)"

definition OrderViewSet_deliver ::
  "datetime \<Rightarrow> request \<Rightarrow> nat \<Rightarrow> db \<Rightarrow> order response \<times> db" where
  "OrderViewSet_deliver now request k d =
     (case get_object OrderViewSet_filterset_fields Order_fields order.pk k (orders d) of
        Inl e \<Rightarrow> (Response500 e, d)
      | Inr None \<Rightarrow> (Response404, d)
      | Inr (Some order) \<Rightarrow>
          respond
                 (Order_save now
                    (order\<lparr>order.delivered_at := Some (RawHost (raw_host request)),
                           order.status := ''delivered''\<rparr>)
                    (orders d))
                 OrderSerializer_data (\<lambda>tbl. d\<lparr>orders := tbl\<rparr>) d)"

section \<open>analytics/views.py: low_stock_report\<close>

text \<open>
  The queryset joins each stock row with its product and its warehouse (both foreign keys
  are mandatory), keeps the rows with \<^verbatim>\<open>quantity_available <= product.reorder_point\<close>,
  annotates the shortage and orders by it. The view turns each row into one entry.
\<close>

record low_stock_entry =
  product_id :: "nat option"
  product_name :: string
  product_sku :: string
  minimum_stock :: nat
  current_quantity :: nat
  shortage :: int
  warehouse_name :: string

definition stock_join :: "db \<Rightarrow> (stock \<times> product \<times> warehouse) list" where
  "stock_join d =
     concat (map (\<lambda>s.
       concat (map (\<lambda>p.
         map (\<lambda>w. (s, p, w))
           (filter (\<lambda>w. warehouse.pk w = Some (stock.warehouse_id s)) (warehouses d)))
         (filter (\<lambda>p. product.pk p = Some (stock.product_id s)) (products d))))
       (stocks d))"

definition row_shortage :: "stock \<times> product \<times> warehouse \<Rightarrow> int" where
  "row_shortage row =
     (case row of (s, p, w) \<Rightarrow>
        int (product.reorder_point p) - int (stock.quantity_available s))"

definition low_stock_items :: "db \<Rightarrow> (stock \<times> product \<times> warehouse) list" where
  "low_stock_items d =
     sort_key row_shortage
       (filter (\<lambda>row. case row of (s, p, w) \<Rightarrow>
                  stock.quantity_available s \<le> product.reorder_point p)
          (stock_join d))"

definition report_entry :: "stock \<times> product \<times> warehouse \<Rightarrow> low_stock_entry" where
  "report_entry row =
     (case row of (s, p, w) \<Rightarrow>
        \<lparr>low_stock_entry.product_id = product.pk p,
         product_name = product.name p,
         product_sku = product.sku p,
         minimum_stock = product.minimum_stock p,
         current_quantity = stock.quantity_available s,
         shortage = max 0 (row_shortage row),
         warehouse_name = warehouse.name w\<rparr>)"

definition low_stock_report :: "db \<Rightarrow> low_stock_entry list" where
  "low_stock_report d = map report_entry (low_stock_items d)"

section \<open>Creating a transfer, and sequences of requests\<close>




section \<open>Example data\<close>

definition empty_db :: db where
  "empty_db =
     \<lparr>products = [], warehouses = [], stocks = [], stock_buffers = [], adjustments = [],
      transfers = [], receivings = [], shipments = [], returns = [], orders = []\<rparr>"

definition year_2025 :: datetime where
  "year_2025 = \<lparr>year = 2025, instant = 0\<rparr>"

definition request_by :: "user \<Rightarrow> request" where
  "request_by u = \<lparr>user = u, raw_host = ''testserver'', data = []\<rparr>"

text \<open>
  One stored document of each of the four operations models, each in a final state, and
  a receiving that has only been received.
\<close>

definition approved_receiving :: receiving where
  "approved_receiving =
     \<lparr>receiving.pk = Some 1, receiving_no = ''RCV-2025-001'', received_by = 3,
      status = ''approved'', inspected_by = Some 4,
      inspected_at = Some (DateTime year_2025), approved_by = Some 5,
      approved_at = Some (DateTime year_2025), rejection_reason = None\<rparr>"

definition received_receiving :: receiving where
  "received_receiving =
     \<lparr>receiving.pk = Some 1, receiving_no = ''RCV-2025-001'', received_by = 3,
      status = ''received'', inspected_by = None, inspected_at = None, approved_by = None,
      approved_at = None, rejection_reason = None\<rparr>"

definition delivered_shipment :: shipment where
  "delivered_shipment =
     \<lparr>shipment.pk = Some 1, shipment_no = ''SHP-2025-001'', packed_by = 3,
      packed_at = Some (DateTime year_2025), shipped_by = Some 4,
      shipped_at = Some (DateTime year_2025),
      delivered_at = Some (DateTime year_2025), carrier = Some ''DHL'',
      tracking_number = Some ''T1'', status = ''delivered''\<rparr>"

definition processed_return :: return where
  "processed_return =
     \<lparr>return.pk = Some 1, return_no = ''RTN-2025-001'', received_by = 3,
      inspected_by = Some 4, inspected_at = Some (DateTime year_2025),
      approved_by = Some 5, approved_at = Some (DateTime year_2025),
      processed_by = Some 6, processed_at = Some (DateTime year_2025),
      status = ''processed'', refund_amount = Some ''25.00''\<rparr>"

definition delivered_order :: order where
  "delivered_order =
     \<lparr>order.pk = Some 1, order_no = ''ORD-2025-001'', status = ''delivered'',
      subtotal = 10000, tax_amount = 800, shipping_amount = 500, discount_amount = 1000,
      total_amount = 10300, processed_by = Some 4,
      processed_at = Some (DateTime year_2025),
      shipped_at = Some (DateTime year_2025),
      delivered_at = Some (DateTime year_2025)\<rparr>"

definition finished_db :: db where
  "finished_db =
     empty_db\<lparr>receivings := [approved_receiving], shipments := [delivered_shipment],
              returns := [processed_return], orders := [delivered_order]\<rparr>"

text \<open>
  A pending transfer and the same transfer approved; an adjustment before its first
  save, the same adjustment stored, and stored with an approval.
\<close>

definition pending_transfer :: transfer where
  "pending_transfer =
     \<lparr>transfer.pk = Some 1, transfer_no = ''TRF-2025-001'', from_warehouse_id = 1,
      from_location_id = 1, to_warehouse_id = 2, to_location_id = 2, product_id = 5,
      quantity = 10, requested_by = 3, approved_by = None, transferred_by = None,
      status = ''pending'', approved_at = None, transferred_at = None\<rparr>"

definition approved_transfer :: transfer where
  "approved_transfer =
     pending_transfer\<lparr>transfer.approved_by := Some 4,
                      transfer.approved_at := Some (DateTime year_2025),
                      transfer.status := ''approved''\<rparr>"

definition new_adjustment :: adjustment where
  "new_adjustment =
     \<lparr>adjustment.pk = None, adjustment_no = [], product_id = 5, warehouse_id = 1,
      location_id = 1, previous_qty = 10, adjusted_qty = 8, adjustment_type = ''decrease'',
      adjusted_by = 3, approved_by = None, approved_at = None\<rparr>"

definition stored_adjustment :: adjustment where
  "stored_adjustment =
     new_adjustment\<lparr>adjustment.pk := Some 1, adjustment.adjustment_no := ''ADJ-2025-001''\<rparr>"

definition approved_adjustment :: adjustment where
  "approved_adjustment =
     stored_adjustment\<lparr>adjustment.approved_by := Some 7,
                       adjustment.approved_at := Some (DateTime year_2025)\<rparr>"



text \<open>
  Two products with different reorder points in one warehouse, three stock rows, and a
  stock buffer for the first product.
\<close>

definition bolt :: product where
  "bolt = \<lparr>product.pk = Some 5, name = ''Bolt'', sku = ''B-1'', minimum_stock = 2,
           reorder_point = 3\<rparr>"

definition nut :: product where
  "nut = \<lparr>product.pk = Some 6, name = ''Nut'', sku = ''N-1'', minimum_stock = 4,
          reorder_point = 10\<rparr>"

definition main_warehouse :: warehouse where
  "main_warehouse = \<lparr>warehouse.pk = Some 1, name = ''Main''\<rparr>"

definition stock_of :: "nat \<Rightarrow> nat \<Rightarrow> nat \<Rightarrow> stock" where
  "stock_of k p q =
     \<lparr>stock.pk = Some k, product_id = p, warehouse_id = 1, location_id = k,
      quantity_available = q, quantity_reserved = 0, quantity_allocated = 0,
      lot_number = None, unit_cost = None, total_value = None\<rparr>"

definition report_db :: db where
  "report_db =
     empty_db\<lparr>products := [bolt, nut], warehouses := [main_warehouse],
              stocks := [stock_of 1 5 5, stock_of 2 6 5, stock_of 3 5 3],
              stock_buffers := [\<lparr>stock_buffer.pk = Some 1, product_id = 5,
                                   warehouse_id = 1, minimum_quantity = 10\<rparr>]\<rparr>"

section \<open>Properties of the ORM's save\<close>

lemma model_save_Inr:
  assumes "model_save get_pk set_pk ukey datetimes r tbl = Inr (r', tbl')"
  shows "r' = r \<or> (get_pk r = None \<and> r' = set_pk (next_pk (map get_pk tbl)) r)"
    and "r' \<in> set tbl'"
  using assms
  by (auto simp: model_save_def split: if_splits option.splits)

lemma model_save_not_convertible:
  "\<not> list_all convertible (datetimes r) \<Longrightarrow>
   model_save get_pk set_pk ukey datetimes r tbl = Inl ValidationError"
  by (simp add: model_save_def)


lemma Order_save_not_convertible:
  assumes "\<not> list_all convertible (Order_datetimes r)"
  shows "\<exists>e. Order_save now r tbl = Inl e"
  using assms
  by (simp add: Order_save_def model_save_not_convertible Order_datetimes_def split: sum.split)



section \<open>Decimal digits\<close>

lemma digit_char_table:
  "digit_char 0 = CHR ''0''" "digit_char 1 = CHR ''1''" "digit_char 2 = CHR ''2''"
  "digit_char 3 = CHR ''3''" "digit_char 4 = CHR ''4''" "digit_char 5 = CHR ''5''"
  "digit_char 6 = CHR ''6''" "digit_char 7 = CHR ''7''" "digit_char 8 = CHR ''8''"
  "digit_char 9 = CHR ''9''" "digit_char (Suc 0) = CHR ''1''"
  by code_simp+

lemma str_nat_2025: "str_nat 2025 = ''2025''"
  by (simp add: str_nat.simps digit_char_table)

lemma fmt_03d_1: "fmt_03d 1 = ''001''" "fmt_03d (Suc 0) = ''001''"
  by code_simp+

lemma next_number_first:
  "next_number ''ORD'' year_2025 [] = Inr ''ORD-2025-001''"
  by (simp add: next_number_def order_by_desc_first_def year_2025_def str_nat_2025 fmt_03d_1)

section \<open>Looking a document up, and saving a stored one\<close>

text \<open>
  The filter set of the adjustments cannot be built, the other five can. A document that
  is in its table under key \<open>k\<close>, with its number assigned, the numbers of the table
  distinct (the column is unique) and date-times in its date-time columns, is saved by
  replacing its row; an instance that holds a host string in a date-time column is not
  saved at all.
\<close>

lemma find_Some_key:
  "find (\<lambda>r. get_pk r = Some k) tbl = Some r \<Longrightarrow> r \<in> set tbl \<and> get_pk r = Some k"
  by (auto simp: find_Some_iff)


lemma Transfer_get_object:
  "get_object TransferViewSet_filterset_fields Transfer_fields transfer.pk k tbl
     = Inr (find (\<lambda>r. transfer.pk r = Some k) tbl)"
  by (simp add: get_object_def filter_queryset_def TransferViewSet_filterset_fields_def
      Transfer_fields_def)

lemma Receiving_get_object:
  "get_object ReceivingViewSet_filterset_fields Receiving_fields receiving.pk k tbl
     = Inr (find (\<lambda>r. receiving.pk r = Some k) tbl)"
  by (simp add: get_object_def filter_queryset_def ReceivingViewSet_filterset_fields_def
      Receiving_fields_def)

lemma Shipment_get_object:
  "get_object ShipmentViewSet_filterset_fields Shipment_fields shipment.pk k tbl
     = Inr (find (\<lambda>r. shipment.pk r = Some k) tbl)"
  by (simp add: get_object_def filter_queryset_def ShipmentViewSet_filterset_fields_def
      Shipment_fields_def)

lemma Return_get_object:
  "get_object ReturnViewSet_filterset_fields Return_fields return.pk k tbl
     = Inr (find (\<lambda>r. return.pk r = Some k) tbl)"
  by (simp add: get_object_def filter_queryset_def ReturnViewSet_filterset_fields_def
      Return_fields_def)

lemma Order_get_object:
  "get_object OrderViewSet_filterset_fields Order_fields order.pk k tbl
     = Inr (find (\<lambda>r. order.pk r = Some k) tbl)"
  by (simp add: get_object_def filter_queryset_def OrderViewSet_filterset_fields_def
      Order_fields_def)

lemma model_save_existing:
  assumes "find (\<lambda>r. get_pk r = Some k) tbl = Some r0" and "get_pk r = Some k"
    and "ukey r = ukey r0" and "distinct (map ukey tbl)"
    and "list_all convertible (datetimes r)"
  shows "model_save get_pk set_pk ukey datetimes r tbl =
           Inr (r, map (\<lambda>x. if get_pk x = Some k then r else x) tbl)"
proof -
  from assms(1) have r0: "r0 \<in> set tbl" "get_pk r0 = Some k"
    by (auto dest: find_Some_key)
  have "\<not> list_ex (\<lambda>x. get_pk x \<noteq> get_pk r \<and> ukey x = ukey r) tbl"
  proof
    assume "list_ex (\<lambda>x. get_pk x \<noteq> get_pk r \<and> ukey x = ukey r) tbl"
    then obtain x where x: "x \<in> set tbl" "get_pk x \<noteq> Some k" "ukey x = ukey r0"
      using assms(2,3) by (auto simp: list_ex_iff)
    from assms(4) have "inj_on ukey (set tbl)" by (simp add: distinct_map)
    with x(1,3) r0(1) have "x = r0" by (auto dest: inj_onD)
    with x(2) r0(2) show False by simp
  qed
  moreover have "get_pk r \<in> set (map get_pk tbl)"
    using r0 assms(2) by force
  ultimately show ?thesis using assms(2,5)
    by (simp add: model_save_def)
qed

lemma document_save_existing:
  assumes "find (\<lambda>r. get_pk r = Some k) tbl = Some r0" and "get_pk r = Some k"
    and "get_no r = get_no r0" and "get_no r0 \<noteq> []" and "distinct (map get_no tbl)"
    and "list_all convertible (datetimes r)"
  shows "document_save prefix get_no set_no get_pk set_pk datetimes now r tbl =
           Inr (r, map (\<lambda>x. if get_pk x = Some k then r else x) tbl)"
proof -
  from assms(5) have "distinct (map (\<lambda>r. Some (get_no r)) tbl)"
    by (simp add: distinct_map inj_on_def)
  from model_save_existing [where get_pk = get_pk and ukey = "\<lambda>r. Some (get_no r)"
      and datetimes = datetimes and set_pk = set_pk and r = r and ?r0.0 = r0 and k = k
      and tbl = tbl] this assms
  show ?thesis by (simp add: document_save_def)
qed

lemma Order_save_existing:
  assumes "find (\<lambda>r. order.pk r = Some k) tbl = Some r0" and "order.pk r = Some k"
    and "order.order_no r = order.order_no r0" and "order.order_no r0 \<noteq> []"
    and "distinct (map order.order_no tbl)"
    and "list_all convertible (Order_datetimes r)"
  shows "Order_save now r tbl =
           Inr (r\<lparr>order.total_amount := order.subtotal r + order.tax_amount r
                      + order.shipping_amount r - order.discount_amount r\<rparr>,
                map (\<lambda>x. if order.pk x = Some k
                          then r\<lparr>order.total_amount := order.subtotal r + order.tax_amount r
                                  + order.shipping_amount r - order.discount_amount r\<rparr>
                          else x) tbl)"
proof -
  from assms(5) have d: "distinct (map (\<lambda>r. Some (order.order_no r)) tbl)"
    by (simp add: distinct_map inj_on_def)
  from assms(6) have c: "list_all convertible (Order_datetimes
      (r\<lparr>order.total_amount := order.subtotal r + order.tax_amount r
                      + order.shipping_amount r - order.discount_amount r\<rparr>))"
    by (simp add: Order_datetimes_def)
  from model_save_existing [where get_pk = order.pk and ukey = "\<lambda>r. Some (order.order_no r)"
      and datetimes = Order_datetimes and set_pk = "\<lambda>k r. r\<lparr>order.pk := Some k\<rparr>"
      and r = "r\<lparr>order.total_amount := order.subtotal r + order.tax_amount r
                      + order.shipping_amount r - order.discount_amount r\<rparr>"
      and ?r0.0 = r0 and k = k and tbl = tbl] d c assms(1,2,3,4)
  show ?thesis by (simp add: Order_save_def)
qed

lemma ReceivingViewSet_reject_stored:
  assumes "find (\<lambda>r. receiving.pk r = Some k) (receivings d) = Some r"
    and "receiving.receiving_no r \<noteq> []"
    and "distinct (map receiving.receiving_no (receivings d))"
    and "list_all convertible (Receiving_datetimes r)"
    and "r' = r\<lparr>receiving.status := ''rejected'',
                 receiving.rejection_reason :=
                   Some (case map_of (data rq) ''reason'' of None \<Rightarrow> [] | Some v \<Rightarrow> v)\<rparr>"
  shows "ReceivingViewSet_reject now rq k d =
           (Response500 NameError,
            d\<lparr>receivings := map (\<lambda>x. if receiving.pk x = Some k then r' else x) (receivings d)\<rparr>)"
proof -
  from assms(4,5) have c: "list_all convertible (Receiving_datetimes r')"
    by (simp add: Receiving_datetimes_def)
  from find_Some_key [OF assms(1)] assms(5) have k: "receiving.pk r' = Some k"
    and n: "receiving.receiving_no r' = receiving.receiving_no r" by simp_all
  from document_save_existing [where get_pk = receiving.pk and get_no = receiving.receiving_no
      and datetimes = Receiving_datetimes and r = r' and ?r0.0 = r and k = k
      and tbl = "receivings d", OF assms(1) k n assms(2,3) c]
  have "Receiving_save now r' (receivings d) =
      Inr (r', map (\<lambda>x. if receiving.pk x = Some k then r' else x) (receivings d))"
    by (simp add: Receiving_save_def)
  with assms(1,5) show ?thesis
    by (simp add: ReceivingViewSet_reject_def Receiving_get_object respond_def
        ReceivingSerializer_data_def)
qed

lemma OrderViewSet_confirm_stored:
  assumes "find (\<lambda>r. order.pk r = Some k) (orders d) = Some r"
    and "order.order_no r \<noteq> []"
    and "distinct (map order.order_no (orders d))"
    and "list_all convertible (Order_datetimes r)"
    and "r' = r\<lparr>order.status := ''confirmed'',
                 order.total_amount := order.subtotal r + order.tax_amount r
                   + order.shipping_amount r - order.discount_amount r\<rparr>"
  shows "OrderViewSet_confirm now rq k d =
           (Response500 NameError,
            d\<lparr>orders := map (\<lambda>x. if order.pk x = Some k then r' else x) (orders d)\<rparr>)"
proof -
  from assms(4) have c: "list_all convertible (Order_datetimes (r\<lparr>order.status := ''confirmed''\<rparr>))"
    by (simp add: Order_datetimes_def)
  from find_Some_key [OF assms(1)] have k: "order.pk (r\<lparr>order.status := ''confirmed''\<rparr>) = Some k"
    and n: "order.order_no (r\<lparr>order.status := ''confirmed''\<rparr>) = order.order_no r" by simp_all
  from Order_save_existing [where r = "r\<lparr>order.status := ''confirmed''\<rparr>" and ?r0.0 = r
      and k = k and tbl = "orders d" and now = now, OF assms(1) k n assms(2,3) c] assms(5)
  have "Order_save now (r\<lparr>order.status := ''confirmed''\<rparr>) (orders d) =
      Inr (r', map (\<lambda>x. if order.pk x = Some k then r' else x) (orders d))"
    by simp
  with assms(1) show ?thesis
    by (simp add: OrderViewSet_confirm_def Order_get_object respond_def
        OrderSerializer_data_def)
qed



section \<open>Three-digit numbers as strings\<close>

text \<open>
  Up to 999 the format gives exactly three digits, and the order of the strings is the
  order of the numbers; \<open>1000\<close> has four digits and sorts before every number from
  \<open>200\<close> on.
\<close>

lemma digit_char_less: "a < 10 \<Longrightarrow> b < 10 \<Longrightarrow> digit_char a < digit_char b \<longleftrightarrow> a < b"
  by (simp add: digit_char_def less_char_def)

lemma digit_char_eq: "a < 10 \<Longrightarrow> b < 10 \<Longrightarrow> digit_char a = digit_char b \<longleftrightarrow> a = b"
  using digit_char_less [of a b] digit_char_less [of b a] by (metis less_irrefl nat_neq_iff)

lemma digit_char_value: "a < 10 \<Longrightarrow> of_char (digit_char a) - 48 = a"
  by (simp add: digit_char_def)

lemma digit_char_is_digit: "a < 10 \<Longrightarrow> is_digit (digit_char a)"
  by (simp add: digit_char_def is_digit_def less_eq_char_def)

lemma digit_char_not_dash: "a < 10 \<Longrightarrow> digit_char a \<noteq> CHR ''-''"
proof
  assume "a < 10" and "digit_char a = CHR ''-''"
  then have "of_char (digit_char a) = (of_char CHR ''-'' :: nat)" by simp
  with \<open>a < 10\<close> show False by (simp add: digit_char_def)
qed

lemma fmt_03d_digits:
  assumes "n < 1000"
  shows "fmt_03d n = [digit_char (n div 100), digit_char (n div 10 mod 10), digit_char (n mod 10)]"
proof -
  consider "n < 10" | "10 \<le> n" "n < 100" | "100 \<le> n" by linarith
  then show ?thesis
  proof cases
    case 1
    then have "str_nat n = [digit_char n]" by (simp add: str_nat.simps)
    with 1 show ?thesis
      by (simp add: fmt_03d_def numeral_2_eq_2 digit_char_table)
  next
    case 2
    then have "n div 10 < 10" by simp
    with 2 have "str_nat n = [digit_char (n div 10), digit_char (n mod 10)]"
      by (simp add: str_nat.simps [of n] str_nat.simps [of "n div 10"])
    with 2 show ?thesis
      by (simp add: fmt_03d_def digit_char_table)
  next
    case 3
    with assms have a: "\<not> n < 10" "\<not> n div 10 < 10" "n div 10 div 10 < 10" by simp_all
    then have "str_nat n =
        [digit_char (n div 10 div 10), digit_char (n div 10 mod 10), digit_char (n mod 10)]"
      by (simp add: str_nat.simps [of n] str_nat.simps [of "n div 10"]
          str_nat.simps [of "n div 10 div 10"])
    then show ?thesis
      by (simp add: fmt_03d_def div_mult2_eq [symmetric])
  qed
qed

lemma fmt_03d_1000: "fmt_03d 1000 = ''1000''"
  by code_simp

lemma less_div_mod:
  fixes i j k :: nat
  assumes "i < j"
  shows "i div k < j div k \<or> (i div k = j div k \<and> i mod k < j mod k)"
proof (cases "i div k = j div k")
  case True
  have "i = k * (i div k) + i mod k" "j = k * (j div k) + j mod k" by simp_all
  with True assms have "i mod k < j mod k"
    by (metis nat_add_left_cancel_less)
  with True show ?thesis by simp
next
  case False
  from assms have "i div k \<le> j div k" by (simp add: div_le_mono)
  with False show ?thesis by simp
qed

lemma hundreds: "(n::nat) div 100 = n div 10 div 10"
  by (simp add: div_mult2_eq [symmetric])

lemma fmt_03d_less:
  assumes "i < j" and "j < 1000"
  shows "fmt_03d i < fmt_03d j"
proof -
  from assms have b: "i div 100 < 10" "j div 100 < 10" "i div 10 mod 10 < 10"
    "j div 10 mod 10 < 10" "i mod 10 < 10" "j mod 10 < 10"
    by simp_all
  from less_div_mod [OF assms(1), of 10]
  have "i div 100 < j div 100
      \<or> (i div 100 = j div 100 \<and> (i div 10 mod 10 < j div 10 mod 10
           \<or> (i div 10 mod 10 = j div 10 mod 10 \<and> i mod 10 < j mod 10)))"
  proof
    assume "i div 10 < j div 10"
    from less_div_mod [OF this, of 10] show ?thesis
      by (auto simp: hundreds)
  next
    assume "i div 10 = j div 10 \<and> i mod 10 < j mod 10"
    then show ?thesis by (simp add: hundreds)
  qed
  with assms b show ?thesis
    by (simp add: fmt_03d_digits digit_char_less digit_char_eq)
qed

lemma fmt_03d_1000_less:
  assumes "i < 1000" and "200 \<le> i"
  shows "fmt_03d 1000 < fmt_03d i"
proof -
  from assms have "1 < i div 100" "i div 100 < 10" by simp_all
  then have "digit_char 1 < digit_char (i div 100)"
    by (simp add: digit_char_less)
  with assms show ?thesis
    by (simp add: fmt_03d_digits fmt_03d_1000 digit_char_table)
qed

lemma py_int_fmt_03d:
  assumes "n < 1000"
  shows "py_int (fmt_03d n) = Inr n"
proof -
  from assms have b: "n div 100 < 10" "n div 10 mod 10 < 10" "n mod 10 < 10"
    by simp_all
  have "10 * (n div 10 div 10) + n div 10 mod 10 = n div 10" by simp
  then have "10 * (10 * (n div 100) + n div 10 mod 10) + n mod 10 = n"
    by (simp add: hundreds)
  with b show ?thesis
    by (simp add: py_int_def fmt_03d_digits digit_char_is_digit digit_char_value)
qed

lemma fmt_03d_no_dash:
  assumes "n < 1000"
  shows "CHR ''-'' \<notin> set (fmt_03d n)"
proof -
  from assms have b: "n div 100 < 10" "n div 10 mod 10 < 10" "n mod 10 < 10"
    by simp_all
  then show ?thesis
    using digit_char_not_dash [of "n div 100"] digit_char_not_dash [of "n div 10 mod 10"]
      digit_char_not_dash [of "n mod 10"]
    by (auto simp: fmt_03d_digits assms)
qed

lemma str_split_no_sep: "sep \<notin> set s \<Longrightarrow> str_split sep s = [s]"
  by (induction s) auto

lemma str_split_length:
  "length (str_split sep s) = Suc (length (filter (\<lambda>c. c = sep) s))"
  by (induction s) (auto split: list.splits)

lemma str_split_last_append:
  "last (str_split sep (xs @ sep # ds)) = last (str_split sep ds)"
proof (induction xs)
  case Nil
  have "str_split sep ds \<noteq> []"
    using str_split_length [of sep ds] by auto
  then show ?case by simp
next
  case (Cons c xs)
  have "length (str_split sep (xs @ sep # ds)) \<ge> 2"
    by (simp add: str_split_length)
  then obtain w v ws where "str_split sep (xs @ sep # ds) = w # v # ws"
    by (cases "str_split sep (xs @ sep # ds)"; cases "tl (str_split sep (xs @ sep # ds))") auto
  with Cons show ?case by auto
qed

lemma last_field:
  "CHR ''-'' \<notin> set ds \<Longrightarrow> last (str_split CHR ''-'' (xs @ CHR ''-'' # ds)) = ds"
  by (simp add: str_split_last_append str_split_no_sep)

section \<open>The generator on a table of generated numbers\<close>

text \<open>
  When the numbers of the prefix and year in the table are those of \<open>1\<close> to \<open>n\<close>, the
  generator finds the number of \<open>min n 999\<close> as the last one.
\<close>

lemma order_by_desc_first_Max:
  assumes "nos \<noteq> []"
  shows "order_by_desc_first nos = Some (Max (set nos))"
proof (cases nos)
  case Nil
  with assms show ?thesis by simp
next
  case (Cons a list)
  have "Max (set (a # list)) = fold max list a" by (rule Max.set_eq_fold)
  with Cons show ?thesis by (simp add: order_by_desc_first_def)
qed

lemma append_less_cancel: "(xs :: string) @ a < xs @ b \<longleftrightarrow> a < b"
  by (induction xs) simp_all

lemma startswith_append: "startswith (p @ s) p"
  by (simp add: startswith_def)

lemma max_number:
  assumes "1 \<le> n" and "n \<le> 1000"
  shows "Max (set (map (\<lambda>i. head @ fmt_03d i) [1..<Suc n])) = head @ fmt_03d (min n 999)"
proof (rule Max_eqI)
  show "finite (set (map (\<lambda>i. head @ fmt_03d i) [1..<Suc n]))" by simp
next
  from assms show "head @ fmt_03d (min n 999) \<in> set (map (\<lambda>i. head @ fmt_03d i) [1..<Suc n])"
    by (auto simp: min_def)
next
  fix y assume "y \<in> set (map (\<lambda>i. head @ fmt_03d i) [1..<Suc n])"
  then obtain i where i: "1 \<le> i" "i \<le> n" "y = head @ fmt_03d i" by auto
  have "fmt_03d i \<le> fmt_03d (min n 999)"
  proof (cases "i = 1000")
    case True
    with i(2) assms(2) have "min n 999 = 999" by simp
    with True fmt_03d_1000_less [of 999] show ?thesis by simp
  next
    case False
    with i(2) assms(2) have "i \<le> min n 999" by simp
    then have "i = min n 999 \<or> i < min n 999" by linarith
    then show ?thesis
    proof
      assume "i = min n 999" then show ?thesis by simp
    next
      assume "i < min n 999"
      then have "fmt_03d i < fmt_03d (min n 999)" by (intro fmt_03d_less) simp_all
      then show ?thesis by simp
    qed
  qed
  then have "head @ fmt_03d i \<le> head @ fmt_03d (min n 999)"
    using append_less_cancel [of head "fmt_03d i" "fmt_03d (min n 999)"]
    by (auto simp: le_less)
  with i(3) show "y \<le> head @ fmt_03d (min n 999)" by simp
qed

lemma next_number_sequence:
  assumes "n \<le> 1000"
    and "filter (\<lambda>s. startswith s (prefix @ ''-'' @ str_nat (year now) @ ''-'')) nos =
           map (\<lambda>i. (prefix @ ''-'' @ str_nat (year now) @ ''-'') @ fmt_03d i) [1..<Suc n]"
  shows "next_number prefix now nos =
           Inr ((prefix @ ''-'' @ str_nat (year now) @ ''-'') @ fmt_03d (Suc (min n 999)))"
proof (cases "n = 0")
  case True
  with assms(2) show ?thesis
    by (simp add: next_number_def order_by_desc_first_def)
next
  case False
  let ?head = "prefix @ ''-'' @ str_nat (year now) @ ''-''"
  let ?m = "min n 999"
  from False assms(1) have n: "1 \<le> n" "n \<le> 1000" by simp_all
  from False have ne: "map (\<lambda>i. ?head @ fmt_03d i) [1..<Suc n] \<noteq> []" by simp
  have first: "order_by_desc_first (filter (\<lambda>s. startswith s ?head) nos)
      = Some (?head @ fmt_03d ?m)"
    unfolding assms(2) order_by_desc_first_Max [OF ne] max_number [OF n] ..
  have m: "?m < 1000" by simp
  have "?head @ fmt_03d ?m = (prefix @ ''-'' @ str_nat (year now)) @ CHR ''-'' # fmt_03d ?m"
    by simp
  then have "last (str_split CHR ''-'' (?head @ fmt_03d ?m)) = fmt_03d ?m"
    using last_field [OF fmt_03d_no_dash [OF m], of "prefix @ ''-'' @ str_nat (year now)"]
    by simp
  then have "py_int (last (str_split CHR ''-'' (?head @ fmt_03d ?m))) = Inr ?m"
    using py_int_fmt_03d [OF m] by simp
  with first show ?thesis
    by (simp add: next_number_def)
qed

section \<open>Creating documents in sequence\<close>

text \<open>
  From a table that holds the numbers \<open>1\<close> to \<open>n\<close> of the prefix and year, creating
  documents without a number assigns the following numbers in order, as long as the
  count stays within 1000. With 1000 numbers in the table the next save fails.
\<close>

lemma fmt_03d_distinct:
  assumes "i < j" and "j \<le> 1000"
  shows "fmt_03d i \<noteq> fmt_03d j"
proof (cases "j = 1000")
  case True
  with assms have "length (fmt_03d i) = 3" by (simp add: fmt_03d_digits)
  moreover from True have "length (fmt_03d j) = 4" by (simp add: fmt_03d_1000)
  ultimately show ?thesis by auto
next
  case False
  with assms have "fmt_03d i < fmt_03d j" by (intro fmt_03d_less) simp_all
  then show ?thesis by simp
qed

lemma create_all_append:
  "create_all save (xs @ ys) tbl =
     (case create_all save xs tbl of Inl e \<Rightarrow> Inl e | Inr tbl' \<Rightarrow> create_all save ys tbl')"
  by (induction xs arbitrary: tbl) (auto split: sum.splits)

lemma document_save_new:
  assumes laws: "\<And>s r. get_no (set_no s r) = s" "\<And>s r. get_pk (set_no s r) = get_pk r"
      "\<And>k r. get_no (set_pk k r) = get_no r" "\<And>k r. get_pk (set_pk k r) = Some k"
      "\<And>s r. datetimes (set_no s r) = datetimes r"
    and new: "get_no x = []" "get_pk x = None" "list_all convertible (datetimes x)"
    and n: "n < 1000"
    and nos: "filter (\<lambda>s. startswith s (prefix @ ''-'' @ str_nat (year now) @ ''-''))
                (map get_no tbl) =
              map (\<lambda>i. (prefix @ ''-'' @ str_nat (year now) @ ''-'') @ fmt_03d i) [1..<Suc n]"
  shows "document_save prefix get_no set_no get_pk set_pk datetimes now x tbl =
           Inr (set_pk (next_pk (map get_pk tbl))
                  (set_no ((prefix @ ''-'' @ str_nat (year now) @ ''-'') @ fmt_03d (Suc n)) x),
                tbl @ [set_pk (next_pk (map get_pk tbl))
                  (set_no ((prefix @ ''-'' @ str_nat (year now) @ ''-'') @ fmt_03d (Suc n)) x)])"
proof -
  let ?head = "prefix @ ''-'' @ str_nat (year now) @ ''-''"
  let ?no = "?head @ fmt_03d (Suc n)"
  from n have "n \<le> 1000" "min n 999 = n" by simp_all
  with next_number_sequence [OF _ nos]
  have next_no: "next_number prefix now (map get_no tbl) = Inr ?no" by simp
  have fresh: "?no \<notin> set (map get_no tbl)"
  proof
    assume "?no \<in> set (map get_no tbl)"
    then have "?no \<in> set (filter (\<lambda>s. startswith s ?head) (map get_no tbl))"
      using startswith_append [of ?head "fmt_03d (Suc n)"] by simp
    then obtain i where "1 \<le> i" "i < Suc n" "?no = ?head @ fmt_03d i"
      unfolding nos by auto
    with n fmt_03d_distinct [of i "Suc n"] show False by simp
  qed
  have "\<not> list_ex (\<lambda>y. get_pk y \<noteq> get_pk (set_no ?no x)
      \<and> Some (get_no y) = Some (get_no (set_no ?no x))) tbl"
  proof
    assume "list_ex (\<lambda>y. get_pk y \<noteq> get_pk (set_no ?no x)
      \<and> Some (get_no y) = Some (get_no (set_no ?no x))) tbl"
    then obtain y where "y \<in> set tbl" "get_no y = ?no"
      unfolding list_ex_iff laws by blast
    then have "?no \<in> set (map get_no tbl)" by force
    with fresh show False ..
  qed
  with next_no new show ?thesis
    by (simp add: document_save_def model_save_def laws)
qed

lemma document_save_overflow:
  assumes laws: "\<And>s r. get_no (set_no s r) = s" "\<And>s r. get_pk (set_no s r) = get_pk r"
      "\<And>s r. datetimes (set_no s r) = datetimes r"
    and new: "get_no x = []" "get_pk x = None" "list_all convertible (datetimes x)"
    and nos: "filter (\<lambda>s. startswith s (prefix @ ''-'' @ str_nat (year now) @ ''-''))
                (map get_no tbl) =
              map (\<lambda>i. (prefix @ ''-'' @ str_nat (year now) @ ''-'') @ fmt_03d i) [1..<1001]"
    and keys: "list_all (\<lambda>r. get_pk r \<noteq> None) tbl"
  shows "document_save prefix get_no set_no get_pk set_pk datetimes now x tbl = Inl IntegrityError"
proof -
  let ?head = "prefix @ ''-'' @ str_nat (year now) @ ''-''"
  let ?no = "?head @ fmt_03d 1000"
  have "[1..<1001] = [1..<Suc 1000]" by simp
  with nos have nos': "filter (\<lambda>s. startswith s ?head) (map get_no tbl) =
      map (\<lambda>i. ?head @ fmt_03d i) [1..<Suc 1000]" by simp
  from next_number_sequence [OF _ nos']
  have next_no: "next_number prefix now (map get_no tbl) = Inr ?no" by simp
  have "?no \<in> set (map (\<lambda>i. ?head @ fmt_03d i) [1..<Suc 1000])" by simp
  then have "?no \<in> set (map get_no tbl)"
    unfolding nos' [symmetric] by simp
  then obtain y where "y \<in> set tbl" "get_no y = ?no" by auto
  moreover from this keys have "get_pk y \<noteq> None" by (simp add: list_all_iff)
  ultimately have "list_ex (\<lambda>y. get_pk y \<noteq> get_pk (set_no ?no x)
      \<and> Some (get_no y) = Some (get_no (set_no ?no x))) tbl"
    using new by (auto simp: list_ex_iff laws)
  with next_no new show ?thesis
    by (simp add: document_save_def model_save_def laws)
qed

lemma create_all_numbers:
  assumes laws: "\<And>s r. get_no (set_no s r) = s" "\<And>s r. get_pk (set_no s r) = get_pk r"
      "\<And>k r. get_no (set_pk k r) = get_no r" "\<And>k r. get_pk (set_pk k r) = Some k"
      "\<And>s r. datetimes (set_no s r) = datetimes r"
    and new: "list_all (\<lambda>x. get_no x = [] \<and> get_pk x = None
                \<and> list_all convertible (datetimes x)) objs"
    and n: "n + length objs \<le> 1000"
    and nos: "filter (\<lambda>s. startswith s (prefix @ ''-'' @ str_nat (year now) @ ''-''))
                (map get_no tbl) =
              map (\<lambda>i. (prefix @ ''-'' @ str_nat (year now) @ ''-'') @ fmt_03d i) [1..<Suc n]"
    and keys: "list_all (\<lambda>r. get_pk r \<noteq> None) tbl"
  shows "\<exists>tbl'. create_all (document_save prefix get_no set_no get_pk set_pk datetimes now) objs tbl
             = Inr tbl'
           \<and> map get_no tbl' = map get_no tbl @
                map (\<lambda>i. (prefix @ ''-'' @ str_nat (year now) @ ''-'') @ fmt_03d i)
                  [Suc n..<Suc (n + length objs)]
           \<and> filter (\<lambda>s. startswith s (prefix @ ''-'' @ str_nat (year now) @ ''-''))
                (map get_no tbl') =
              map (\<lambda>i. (prefix @ ''-'' @ str_nat (year now) @ ''-'') @ fmt_03d i)
                [1..<Suc (n + length objs)]
           \<and> list_all (\<lambda>r. get_pk r \<noteq> None) tbl'"
  using new n nos keys
proof (induction objs arbitrary: n tbl)
  case Nil
  then show ?case by simp
next
  case (Cons x objs)
  let ?head = "prefix @ ''-'' @ str_nat (year now) @ ''-''"
  let ?r = "set_pk (next_pk (map get_pk tbl)) (set_no (?head @ fmt_03d (Suc n)) x)"
  from Cons.prems have x: "get_no x = []" "get_pk x = None" "list_all convertible (datetimes x)"
    and "n < 1000" by simp_all
  from document_save_new [OF laws x \<open>n < 1000\<close> Cons.prems(3)]
  have step: "document_save prefix get_no set_no get_pk set_pk datetimes now x tbl = Inr (?r, tbl @ [?r])" .
  have no_r: "get_no ?r = ?head @ fmt_03d (Suc n)" by (simp add: laws)
  have "filter (\<lambda>s. startswith s ?head) (map get_no (tbl @ [?r])) =
      filter (\<lambda>s. startswith s ?head) (map get_no tbl) @ [?head @ fmt_03d (Suc n)]"
    using startswith_append [of ?head "fmt_03d (Suc n)"]
    unfolding map_append filter_append list.map no_r by simp
  also have "\<dots> = map (\<lambda>i. ?head @ fmt_03d i) [1..<Suc n] @ [?head @ fmt_03d (Suc n)]"
    unfolding Cons.prems(3) ..
  also have "\<dots> = map (\<lambda>i. ?head @ fmt_03d i) [1..<Suc (Suc n)]"
    unfolding upt_Suc [of 1 "Suc n"] by simp
  finally have nos': "filter (\<lambda>s. startswith s ?head) (map get_no (tbl @ [?r])) =
      map (\<lambda>i. ?head @ fmt_03d i) [1..<Suc (Suc n)]" .
  have keys': "list_all (\<lambda>r. get_pk r \<noteq> None) (tbl @ [?r])"
    using Cons.prems(4) by (simp add: laws)
  from Cons.prems have "list_all (\<lambda>x. get_no x = [] \<and> get_pk x = None
      \<and> list_all convertible (datetimes x)) objs"
    and "Suc n + length objs \<le> 1000" by simp_all
  from Cons.IH [OF this nos' keys'] obtain tbl' where
    t: "create_all (document_save prefix get_no set_no get_pk set_pk datetimes now) objs (tbl @ [?r])
          = Inr tbl'"
      "map get_no tbl' = map get_no (tbl @ [?r]) @
         map (\<lambda>i. ?head @ fmt_03d i) [Suc (Suc n)..<Suc (Suc n + length objs)]"
      "filter (\<lambda>s. startswith s ?head) (map get_no tbl') =
         map (\<lambda>i. ?head @ fmt_03d i) [1..<Suc (Suc n + length objs)]"
      "list_all (\<lambda>r. get_pk r \<noteq> None) tbl'"
    by blast
  have run: "create_all (document_save prefix get_no set_no get_pk set_pk datetimes now) (x # objs) tbl
      = Inr tbl'"
    using step t(1) by simp
  have len: "Suc (Suc n + length objs) = Suc (n + length (x # objs))" by simp
  have "[Suc n..<Suc (n + length (x # objs))] =
      Suc n # [Suc (Suc n)..<Suc (Suc n + length objs)]"
    unfolding len by (rule upt_conv_Cons) simp
  then have col: "map get_no tbl' = map get_no tbl @
      map (\<lambda>i. ?head @ fmt_03d i) [Suc n..<Suc (n + length (x # objs))]"
    unfolding t(2) map_append list.map no_r by simp
  from t(3) have sel: "filter (\<lambda>s. startswith s ?head) (map get_no tbl') =
      map (\<lambda>i. ?head @ fmt_03d i) [1..<Suc (n + length (x # objs))]"
    unfolding len .
  from run col sel t(4) show ?case by blast
qed

section \<open>Stock valuation\<close>

text \<open>
  C5 (as stated, refuted): a stock row with unit cost 5.00 whose three quantities are zero
  and whose stored value is still 50.00 keeps the 50.00 through a save, although unit cost
  times total quantity is zero.
\<close>

theorem C5_stale_total_value:
  "Stock_save
     \<lparr>stock.pk = Some 1, product_id = 1, warehouse_id = 1, location_id = 1, quantity_available = 0,
       quantity_reserved = 0, quantity_allocated = 0, lot_number = None,
       unit_cost = Some 500, total_value = Some 5000\<rparr>
     [\<lparr>stock.pk = Some 1, product_id = 1, warehouse_id = 1, location_id = 1, quantity_available = 10,
       quantity_reserved = 0, quantity_allocated = 0, lot_number = None,
       unit_cost = Some 500, total_value = Some 5000\<rparr>]
   = Inr (\<lparr>stock.pk = Some 1, product_id = 1, warehouse_id = 1, location_id = 1, quantity_available = 0,
            quantity_reserved = 0, quantity_allocated = 0, lot_number = None,
            unit_cost = Some 500, total_value = Some 5000\<rparr>,
          [\<lparr>stock.pk = Some 1, product_id = 1, warehouse_id = 1, location_id = 1, quantity_available = 0,
            quantity_reserved = 0, quantity_allocated = 0, lot_number = None,
            unit_cost = Some 500, total_value = Some 5000\<rparr>])
   \<and> Some (5000 :: decimal) \<noteq> Some (500 * int (0 + 0 + 0))"
  by (simp add: Stock_save_def model_save_def quantity_total_def stock_unique_def)

text \<open>
  C5 (amended): a successful save stores the saved instance, and its total value is unit
  cost times total quantity when the unit cost is set and not zero and the total quantity
  is not zero; in every other case the total value is what it was before the save.
\<close>

theorem C5_total_value_on_save:
  assumes "Stock_save self tbl = Inr (s', tbl')"
  shows "s' \<in> set tbl' \<and>
         stock.total_value s' =
           (case stock.unit_cost self of
              None \<Rightarrow> stock.total_value self
            | Some c \<Rightarrow>
                if c \<noteq> 0 \<and> quantity_total self \<noteq> 0
                then Some (c * int (quantity_total self))
                else stock.total_value self)"
proof -
  let ?v = "case stock.unit_cost self of
              None \<Rightarrow> self
            | Some c \<Rightarrow>
                if c \<noteq> 0 \<and> quantity_total self \<noteq> 0
                then self\<lparr>stock.total_value := Some (c * int (quantity_total self))\<rparr>
                else self"
  from assms have s: "model_save stock.pk (\<lambda>k s. s\<lparr>stock.pk := Some k\<rparr>) stock_unique (\<lambda>s. []) ?v tbl
      = Inr (s', tbl')"
    by (simp add: Stock_save_def)
  from model_save_Inr(2) [OF s] have mem: "s' \<in> set tbl'" .
  from model_save_Inr(1) [OF s] have "stock.total_value s' = stock.total_value ?v"
    by auto
  then show ?thesis using mem
    by (simp split: option.splits)
qed

theorem C5_total_value_on_save_witness:
  "Stock_save
     \<lparr>stock.pk = None, product_id = 1, warehouse_id = 1, location_id = 1, quantity_available = 4,
       quantity_reserved = 1, quantity_allocated = 0, lot_number = None,
       unit_cost = Some 250, total_value = None\<rparr> []
   = Inr (\<lparr>stock.pk = Some 1, product_id = 1, warehouse_id = 1, location_id = 1, quantity_available = 4,
            quantity_reserved = 1, quantity_allocated = 0, lot_number = None,
            unit_cost = Some 250, total_value = Some 1250\<rparr>,
          [\<lparr>stock.pk = Some 1, product_id = 1, warehouse_id = 1, location_id = 1, quantity_available = 4,
            quantity_reserved = 1, quantity_allocated = 0, lot_number = None,
            unit_cost = Some 250, total_value = Some 1250\<rparr>])
   \<and> stock.total_value
        \<lparr>stock.pk = Some 1, product_id = 1, warehouse_id = 1, location_id = 1, quantity_available = 4,
          quantity_reserved = 1, quantity_allocated = 0, lot_number = None,
          unit_cost = Some 250, total_value = Some 1250\<rparr> = Some (250 * int (4 + 1 + 0))"
proof -
  have run: "Stock_save
     \<lparr>stock.pk = None, product_id = 1, warehouse_id = 1, location_id = 1, quantity_available = 4,
       quantity_reserved = 1, quantity_allocated = 0, lot_number = None,
       unit_cost = Some 250, total_value = None\<rparr> []
   = Inr (\<lparr>stock.pk = Some 1, product_id = 1, warehouse_id = 1, location_id = 1, quantity_available = 4,
            quantity_reserved = 1, quantity_allocated = 0, lot_number = None,
            unit_cost = Some 250, total_value = Some 1250\<rparr>,
          [\<lparr>stock.pk = Some 1, product_id = 1, warehouse_id = 1, location_id = 1, quantity_available = 4,
            quantity_reserved = 1, quantity_allocated = 0, lot_number = None,
            unit_cost = Some 250, total_value = Some 1250\<rparr>])"
    by (simp add: Stock_save_def model_save_def quantity_total_def stock_unique_def next_pk_def)
  from C5_total_value_on_save [OF run] show ?thesis using run
    by (simp add: quantity_total_def)
qed

section \<open>The total of an order\<close>

text \<open>
  C9: after a successful \<^verbatim>\<open>Order.save\<close> the saved order, which is in the table, has
  \<^verbatim>\<open>total_amount = subtotal + tax_amount + shipping_amount - discount_amount\<close>.
\<close>

theorem C9_order_total:
  assumes "Order_save now self tbl = Inr (saved, tbl')"
  shows "order.total_amount saved =
           order.subtotal self + order.tax_amount self + order.shipping_amount self
             - order.discount_amount self
         \<and> saved \<in> set tbl'"
proof -
  from assms obtain numbered where
    n: "numbered = self \<or> (\<exists>no. numbered = self\<lparr>order.order_no := no\<rparr>)" and
    s: "model_save order.pk (\<lambda>k r. r\<lparr>order.pk := Some k\<rparr>) (\<lambda>r. Some (order.order_no r))
            Order_datetimes
            (numbered\<lparr>order.total_amount :=
               order.subtotal numbered + order.tax_amount numbered
                 + order.shipping_amount numbered - order.discount_amount numbered\<rparr>)
            tbl = Inr (saved, tbl')"
    by (auto simp: Order_save_def split: if_splits sum.splits)
  from model_save_Inr(2) [OF s] have mem: "saved \<in> set tbl'" .
  from model_save_Inr(1) [OF s] n show ?thesis using mem by auto
qed

theorem C9_order_total_witness:
  "Order_save year_2025
     \<lparr>order.pk = None, order_no = [], status = ''pending'', subtotal = 10000,
       tax_amount = 800, shipping_amount = 500, discount_amount = 1000, total_amount = 0,
       processed_by = None, processed_at = None, shipped_at = None, delivered_at = None\<rparr> []
   = Inr (\<lparr>order.pk = Some 1, order_no = ''ORD-2025-001'', status = ''pending'',
            subtotal = 10000, tax_amount = 800, shipping_amount = 500,
            discount_amount = 1000, total_amount = 10300, processed_by = None,
            processed_at = None, shipped_at = None, delivered_at = None\<rparr>,
          [\<lparr>order.pk = Some 1, order_no = ''ORD-2025-001'', status = ''pending'',
            subtotal = 10000, tax_amount = 800, shipping_amount = 500,
            discount_amount = 1000, total_amount = 10300, processed_by = None,
            processed_at = None, shipped_at = None, delivered_at = None\<rparr>])
   \<and> order.total_amount
        \<lparr>order.pk = Some 1, order_no = ''ORD-2025-001'', status = ''pending'',
          subtotal = 10000, tax_amount = 800, shipping_amount = 500,
          discount_amount = 1000, total_amount = 10300, processed_by = None,
          processed_at = None, shipped_at = None, delivered_at = None\<rparr>
       = 10000 + 800 + 500 - 1000"
proof -
  have run: "Order_save year_2025
     \<lparr>order.pk = None, order_no = [], status = ''pending'', subtotal = 10000,
       tax_amount = 800, shipping_amount = 500, discount_amount = 1000, total_amount = 0,
       processed_by = None, processed_at = None, shipped_at = None, delivered_at = None\<rparr> []
   = Inr (\<lparr>order.pk = Some 1, order_no = ''ORD-2025-001'', status = ''pending'',
            subtotal = 10000, tax_amount = 800, shipping_amount = 500,
            discount_amount = 1000, total_amount = 10300, processed_by = None,
            processed_at = None, shipped_at = None, delivered_at = None\<rparr>,
          [\<lparr>order.pk = Some 1, order_no = ''ORD-2025-001'', status = ''pending'',
            subtotal = 10000, tax_amount = 800, shipping_amount = 500,
            discount_amount = 1000, total_amount = 10300, processed_by = None,
            processed_at = None, shipped_at = None, delivered_at = None\<rparr>])"
    by (simp add: Order_save_def next_number_first model_save_def next_pk_def
        Order_datetimes_def convertible_def)
  from C9_order_total [OF run] show ?thesis using run by simp
qed

section \<open>Document numbers beyond 999\<close>

text \<open>
  C1 (the code at the failing input): creating 1000 adjustments in 2025, starting from an
  empty table, assigns \<^verbatim>\<open>ADJ-2025-001\<close> to \<^verbatim>\<open>ADJ-2025-1000\<close> in order. For the next
  adjustment the generator reads \<^verbatim>\<open>ADJ-2025-999\<close> as the last number, since the order is
  that of strings, and produces \<^verbatim>\<open>ADJ-2025-1000\<close> a second time; the unique column
  refuses it, so the creation of 1001 adjustments ends in \<^verbatim>\<open>IntegrityError\<close>.
\<close>

theorem C1_number_1000_assigned_twice:
  "(\<exists>tbl. create_all (Adjustment_save year_2025) (replicate 1000 new_adjustment) [] = Inr tbl
        \<and> map adjustment.adjustment_no tbl = map (\<lambda>i. ''ADJ-2025-'' @ fmt_03d i) [1..<1001]
        \<and> next_number ''ADJ'' year_2025 (map adjustment.adjustment_no tbl)
            = Inr ''ADJ-2025-1000''
        \<and> Adjustment_save year_2025 new_adjustment tbl = Inl IntegrityError)
   \<and> create_all (Adjustment_save year_2025) (replicate 1001 new_adjustment) []
        = Inl IntegrityError
   \<and> fmt_03d 999 = ''999'' \<and> fmt_03d 1000 = ''1000''"
proof -
  let ?save = "document_save ''ADJ'' adjustment.adjustment_no
      (\<lambda>n r. r\<lparr>adjustment.adjustment_no := n\<rparr>) adjustment.pk
      (\<lambda>k r. r\<lparr>adjustment.pk := Some k\<rparr>) Adjustment_datetimes year_2025"
  have save: "Adjustment_save year_2025 = ?save"
    by (simp add: Adjustment_save_def)
  have head: "''ADJ'' @ ''-'' @ str_nat (year year_2025) @ ''-'' = ''ADJ-2025-''"
    by (simp add: year_2025_def str_nat_2025)
  have new: "adjustment.adjustment_no new_adjustment = []" "adjustment.pk new_adjustment = None"
      "list_all convertible (Adjustment_datetimes new_adjustment)"
    by (simp_all add: new_adjustment_def Adjustment_datetimes_def convertible_def)
  have news: "list_all (\<lambda>x. adjustment.adjustment_no x = [] \<and> adjustment.pk x = None
      \<and> list_all convertible (Adjustment_datetimes x)) (replicate 1000 new_adjustment)"
    using new by (simp add: list_all_iff)
  have start: "filter (\<lambda>s. startswith s (''ADJ'' @ ''-'' @ str_nat (year year_2025) @ ''-''))
      (map adjustment.adjustment_no ([] :: adjustment list)) =
      map (\<lambda>i. (''ADJ'' @ ''-'' @ str_nat (year year_2025) @ ''-'') @ fmt_03d i) [1..<Suc 0]"
    by simp
  have "\<exists>tbl'. create_all ?save (replicate 1000 new_adjustment) [] = Inr tbl'
      \<and> map adjustment.adjustment_no tbl' = map adjustment.adjustment_no ([] :: adjustment list) @
           map (\<lambda>i. (''ADJ'' @ ''-'' @ str_nat (year year_2025) @ ''-'') @ fmt_03d i)
             [Suc 0..<Suc (0 + length (replicate 1000 new_adjustment))]
      \<and> filter (\<lambda>s. startswith s (''ADJ'' @ ''-'' @ str_nat (year year_2025) @ ''-''))
           (map adjustment.adjustment_no tbl') =
         map (\<lambda>i. (''ADJ'' @ ''-'' @ str_nat (year year_2025) @ ''-'') @ fmt_03d i)
           [1..<Suc (0 + length (replicate 1000 new_adjustment))]
      \<and> list_all (\<lambda>r. adjustment.pk r \<noteq> None) tbl'"
    by (rule create_all_numbers [where get_no = "adjustment.adjustment_no :: adjustment \<Rightarrow> string"
          and set_no = "\<lambda>n r. r\<lparr>adjustment.adjustment_no := n\<rparr>"
          and get_pk = "adjustment.pk :: adjustment \<Rightarrow> nat option"
          and set_pk = "\<lambda>k r. r\<lparr>adjustment.pk := Some k\<rparr>"
          and datetimes = Adjustment_datetimes
          and prefix = "''ADJ''" and now = year_2025 and n = 0
          and tbl = "[] :: adjustment list"
          and objs = "replicate 1000 new_adjustment", OF _ _ _ _ _ news _ start])
      (simp_all add: Adjustment_datetimes_def)
  then obtain tbl where
    run: "create_all ?save (replicate 1000 new_adjustment) [] = Inr tbl" and
    col: "map adjustment.adjustment_no tbl = map (\<lambda>i. ''ADJ-2025-'' @ fmt_03d i) [1..<1001]" and
    sel: "filter (\<lambda>s. startswith s (''ADJ'' @ ''-'' @ str_nat (year year_2025) @ ''-''))
           (map adjustment.adjustment_no tbl) =
         map (\<lambda>i. (''ADJ'' @ ''-'' @ str_nat (year year_2025) @ ''-'') @ fmt_03d i) [1..<1001]" and
    keys: "list_all (\<lambda>r. adjustment.pk r \<noteq> None) tbl"
    unfolding head by auto
  have "[1..<1001] = [1..<Suc 1000]" by simp
  with sel have sel': "filter (\<lambda>s. startswith s (''ADJ'' @ ''-'' @ str_nat (year year_2025) @ ''-''))
           (map adjustment.adjustment_no tbl) =
         map (\<lambda>i. (''ADJ'' @ ''-'' @ str_nat (year year_2025) @ ''-'') @ fmt_03d i)
           [1..<Suc 1000]"
    by simp
  have "next_number ''ADJ'' year_2025 (map adjustment.adjustment_no tbl) =
      Inr ((''ADJ'' @ ''-'' @ str_nat (year year_2025) @ ''-'') @ fmt_03d (Suc (min 1000 999)))"
    by (rule next_number_sequence [OF _ sel']) simp
  then have nxt: "next_number ''ADJ'' year_2025 (map adjustment.adjustment_no tbl)
      = Inr ''ADJ-2025-1000''"
    unfolding head by (simp add: fmt_03d_1000)
  have over: "?save new_adjustment tbl = Inl IntegrityError"
    by (rule document_save_overflow [where get_no = "adjustment.adjustment_no :: adjustment \<Rightarrow> string"
          and set_no = "\<lambda>n r. r\<lparr>adjustment.adjustment_no := n\<rparr>"
          and get_pk = "adjustment.pk :: adjustment \<Rightarrow> nat option"
          and datetimes = Adjustment_datetimes and prefix = "''ADJ''" and now = year_2025,
          OF _ _ _ new sel keys])
      (simp_all add: Adjustment_datetimes_def)
  have "replicate (1000 + 1) new_adjustment =
      replicate 1000 new_adjustment @ replicate 1 new_adjustment"
    by (rule replicate_add)
  then have "replicate 1001 new_adjustment = replicate 1000 new_adjustment @ [new_adjustment]"
    by simp
  then have all: "create_all ?save (replicate 1001 new_adjustment) [] = Inl IntegrityError"
    by (simp add: create_all_append run over)
  have f: "fmt_03d 999 = ''999''" "fmt_03d 1000 = ''1000''"
    by code_simp+
  from run col nxt over all f show ?thesis
    unfolding save by blast
qed

section \<open>Transfer approval and execution\<close>

text \<open>
  C3 (refuted at these inputs; a defect of the code): the two guards answer 400 and
  change nothing, as the claim says: \<^verbatim>\<open>execute\<close> on a pending transfer, \<^verbatim>\<open>approve\<close> on an
  approved one. But where the precondition holds the status is not set: \<^verbatim>\<open>approve\<close> on
  the pending transfer TRF-2025-001 assigns the host string of the request to
  \<^verbatim>\<open>approved_at\<close>, the save raises \<^verbatim>\<open>ValidationError\<close>, the answer is 500 and the stored
  transfer is still pending; \<^verbatim>\<open>execute\<close> on an approved transfer fails in the same way
  on \<^verbatim>\<open>transferred_at\<close> and the transfer stays approved.
\<close>

theorem C3_approve_and_execute_raise:
  "transfer.status pending_transfer = ''pending''
   \<and> TransferViewSet_approve year_2025 (request_by 7) 1
         (empty_db\<lparr>transfers := [pending_transfer]\<rparr>)
     = (Response500 ValidationError, empty_db\<lparr>transfers := [pending_transfer]\<rparr>)
   \<and> TransferViewSet_execute year_2025 (request_by 7) 1
         (empty_db\<lparr>transfers := [pending_transfer]\<rparr>)
     = (Response400 ''Transfer must be approved first'',
        empty_db\<lparr>transfers := [pending_transfer]\<rparr>)
   \<and> transfer.status approved_transfer = ''approved''
   \<and> TransferViewSet_execute year_2025 (request_by 7) 1
         (empty_db\<lparr>transfers := [approved_transfer]\<rparr>)
     = (Response500 ValidationError, empty_db\<lparr>transfers := [approved_transfer]\<rparr>)
   \<and> TransferViewSet_approve year_2025 (request_by 7) 1
         (empty_db\<lparr>transfers := [approved_transfer]\<rparr>)
     = (Response400 ''Transfer is not pending'', empty_db\<lparr>transfers := [approved_transfer]\<rparr>)"
  by (simp add: TransferViewSet_approve_def TransferViewSet_execute_def Transfer_get_object
      Transfer_save_def document_save_def model_save_def Transfer_datetimes_def
      convertible_def respond_def request_by_def approved_transfer_def pending_transfer_def)

section \<open>The stock ledger is not touched\<close>



section \<open>What a transition records\<close>

text \<open>
  C6 (refuted at these inputs; a defect of the code): \<^verbatim>\<open>Transfer.approve\<close> by user 7 on
  the pending transfer TRF-2025-001 answers 500 and persists nothing: the status is still
  pending, \<^verbatim>\<open>approved_by\<close> and \<^verbatim>\<open>approved_at\<close> are still unset. The view assigns the
  host string of the request, not the current time, to \<^verbatim>\<open>approved_at\<close>, and the save
  raises \<^verbatim>\<open>ValidationError\<close>. \<^verbatim>\<open>Receiving.inspect\<close> on a received receiving fails in the
  same way.
\<close>

theorem C6_transitions_record_nothing:
  "TransferViewSet_approve year_2025 (request_by 7) 1
         (empty_db\<lparr>transfers := [pending_transfer]\<rparr>)
     = (Response500 ValidationError, empty_db\<lparr>transfers := [pending_transfer]\<rparr>)
   \<and> transfer.status pending_transfer = ''pending''
   \<and> transfer.approved_by pending_transfer = None
   \<and> transfer.approved_at pending_transfer = None
   \<and> ReceivingViewSet_inspect year_2025 (request_by 7) 1
         (empty_db\<lparr>receivings := [received_receiving]\<rparr>)
     = (Response500 ValidationError, empty_db\<lparr>receivings := [received_receiving]\<rparr>)
   \<and> receiving.status received_receiving = ''received''
   \<and> receiving.inspected_by received_receiving = None
   \<and> receiving.inspected_at received_receiving = None"
  by (simp add: TransferViewSet_approve_def Transfer_get_object Transfer_save_def
      Transfer_datetimes_def ReceivingViewSet_inspect_def Receiving_get_object
      Receiving_save_def Receiving_datetimes_def document_save_def model_save_def
      convertible_def respond_def request_by_def pending_transfer_def received_receiving_def)

section \<open>A second approval of an adjustment\<close>

text \<open>
  C7 (refuted at this input; a defect of the code): \<^verbatim>\<open>Adjustment.approve\<close> by user 8 on
  an adjustment that user 7 has approved answers 500 with \<^verbatim>\<open>TypeError\<close>, not 400: the
  filter set of the view names \<^verbatim>\<open>status\<close>, which is not a field of the model, so looking
  the adjustment up raises before the guard on \<^verbatim>\<open>approved_by\<close> is reached. The
  adjustment is unchanged, as the claim says.
\<close>

theorem C7_approve_raises_before_the_guard:
  "AdjustmentViewSet_approve year_2025 (request_by 8) 1
         (empty_db\<lparr>adjustments := [approved_adjustment]\<rparr>)
     = (Response500 TypeError, empty_db\<lparr>adjustments := [approved_adjustment]\<rparr>)
   \<and> adjustment.approved_by approved_adjustment = Some 7
   \<and> ''status'' \<in> set AdjustmentViewSet_filterset_fields
   \<and> ''status'' \<notin> set Adjustment_fields"
  by (simp add: AdjustmentViewSet_approve_def get_object_def filter_queryset_def
      approved_adjustment_def stored_adjustment_def new_adjustment_def
      AdjustmentViewSet_filterset_fields_def Adjustment_fields_def)

section \<open>Transitions of the operations documents\<close>

text \<open>
  C2 (as stated, refuted): \<^verbatim>\<open>Order.confirm\<close> on a delivered order, which is not in the
  prior state of a confirmation, does not answer 400 and does not leave the order
  unchanged: the order is stored with status \<^verbatim>\<open>confirmed\<close>, and the answer is 500
  because the serializer of the response raises \<^verbatim>\<open>NameError\<close> after the save.
\<close>

theorem C2_confirm_without_guard:
  "order.status delivered_order = ''delivered''
   \<and> OrderViewSet_confirm year_2025 (request_by 7) 1 (empty_db\<lparr>orders := [delivered_order]\<rparr>)
     = (Response500 NameError,
        empty_db\<lparr>orders := [delivered_order\<lparr>order.status := ''confirmed''\<rparr>]\<rparr>)"
  by (simp add: OrderViewSet_confirm_def Order_get_object Order_save_def model_save_def
      Order_datetimes_def convertible_def respond_def OrderSerializer_data_def
      delivered_order_def)

text \<open>
  C2 (amended): none of the thirteen transitions of receivings, shipments, returns and
  orders answers 400, whatever the state of the document; and \<^verbatim>\<open>Receiving.reject\<close> and
  \<^verbatim>\<open>Order.confirm\<close>, called on a stored document (number assigned, numbers of the table
  distinct, date-times in its date-time columns) in any status, store the document with
  status \<^verbatim>\<open>rejected\<close> (and the reason of the request) and \<^verbatim>\<open>confirmed\<close> (and the total
  recomputed), the other rows and tables as they were.
\<close>

theorem C2_transitions_unguarded:
  "(\<forall>view \<in> set [ReceivingViewSet_inspect, ReceivingViewSet_approve, ReceivingViewSet_reject].
       fst (view now rq k1 d) \<noteq> Response400 m1)
   \<and> (\<forall>view \<in> set [ShipmentViewSet_pack, ShipmentViewSet_ship, ShipmentViewSet_deliver].
       fst (view now rq k2 d) \<noteq> Response400 m2)
   \<and> (\<forall>view \<in> set [ReturnViewSet_inspect, ReturnViewSet_approve, ReturnViewSet_process].
       fst (view now rq k3 d) \<noteq> Response400 m3)
   \<and> (\<forall>view \<in> set [OrderViewSet_confirm, OrderViewSet_process, OrderViewSet_ship,
                      OrderViewSet_deliver].
       fst (view now rq k4 d) \<noteq> Response400 m4)
   \<and> (get_object ReceivingViewSet_filterset_fields Receiving_fields receiving.pk k1
          (receivings d) = Inr (Some r1)
        \<and> receiving.receiving_no r1 \<noteq> []
        \<and> distinct (map receiving.receiving_no (receivings d))
        \<and> list_all convertible (Receiving_datetimes r1) \<longrightarrow>
      snd (ReceivingViewSet_reject now rq k1 d) =
        d\<lparr>receivings :=
             map (\<lambda>x. if receiving.pk x = Some k1
                       then r1\<lparr>receiving.status := ''rejected'',
                                receiving.rejection_reason :=
                                  Some (case map_of (data rq) ''reason'' of
                                          None \<Rightarrow> [] | Some v \<Rightarrow> v)\<rparr>
                       else x) (receivings d)\<rparr>)
   \<and> (get_object OrderViewSet_filterset_fields Order_fields order.pk k4 (orders d)
          = Inr (Some r4)
        \<and> order.order_no r4 \<noteq> []
        \<and> distinct (map order.order_no (orders d))
        \<and> list_all convertible (Order_datetimes r4) \<longrightarrow>
      snd (OrderViewSet_confirm now rq k4 d) =
        d\<lparr>orders :=
             map (\<lambda>x. if order.pk x = Some k4
                       then r4\<lparr>order.status := ''confirmed'',
                                order.total_amount :=
                                  order.subtotal r4 + order.tax_amount r4
                                    + order.shipping_amount r4 - order.discount_amount r4\<rparr>
                       else x) (orders d)\<rparr>)"
proof (intro conjI impI)
  show "\<forall>view \<in> set [ReceivingViewSet_inspect, ReceivingViewSet_approve, ReceivingViewSet_reject].
       fst (view now rq k1 d) \<noteq> Response400 m1"
    by (simp add: ReceivingViewSet_inspect_def ReceivingViewSet_approve_def
        ReceivingViewSet_reject_def respond_def
        split: sum.split option.split prod.split)
  show "\<forall>view \<in> set [ShipmentViewSet_pack, ShipmentViewSet_ship, ShipmentViewSet_deliver].
       fst (view now rq k2 d) \<noteq> Response400 m2"
    by (simp add: ShipmentViewSet_pack_def ShipmentViewSet_ship_def
        ShipmentViewSet_deliver_def respond_def
        split: sum.split option.split prod.split)
  show "\<forall>view \<in> set [ReturnViewSet_inspect, ReturnViewSet_approve, ReturnViewSet_process].
       fst (view now rq k3 d) \<noteq> Response400 m3"
    by (simp add: ReturnViewSet_inspect_def ReturnViewSet_approve_def
        ReturnViewSet_process_def respond_def
        split: sum.split option.split prod.split)
  show "\<forall>view \<in> set [OrderViewSet_confirm, OrderViewSet_process, OrderViewSet_ship,
                      OrderViewSet_deliver].
       fst (view now rq k4 d) \<noteq> Response400 m4"
    by (simp add: OrderViewSet_confirm_def OrderViewSet_process_def OrderViewSet_ship_def
        OrderViewSet_deliver_def respond_def
        split: sum.split option.split prod.split)
next
  assume "get_object ReceivingViewSet_filterset_fields Receiving_fields receiving.pk k1
          (receivings d) = Inr (Some r1)
        \<and> receiving.receiving_no r1 \<noteq> []
        \<and> distinct (map receiving.receiving_no (receivings d))
        \<and> list_all convertible (Receiving_datetimes r1)"
  then show "snd (ReceivingViewSet_reject now rq k1 d) =
        d\<lparr>receivings :=
             map (\<lambda>x. if receiving.pk x = Some k1
                       then r1\<lparr>receiving.status := ''rejected'',
                                receiving.rejection_reason :=
                                  Some (case map_of (data rq) ''reason'' of
                                          None \<Rightarrow> [] | Some v \<Rightarrow> v)\<rparr>
                       else x) (receivings d)\<rparr>"
    by (simp add: Receiving_get_object
        ReceivingViewSet_reject_stored [where r = r1 and rq = rq and now = now])
next
  assume "get_object OrderViewSet_filterset_fields Order_fields order.pk k4 (orders d)
          = Inr (Some r4)
        \<and> order.order_no r4 \<noteq> []
        \<and> distinct (map order.order_no (orders d))
        \<and> list_all convertible (Order_datetimes r4)"
  then show "snd (OrderViewSet_confirm now rq k4 d) =
        d\<lparr>orders :=
             map (\<lambda>x. if order.pk x = Some k4
                       then r4\<lparr>order.status := ''confirmed'',
                                order.total_amount :=
                                  order.subtotal r4 + order.tax_amount r4
                                    + order.shipping_amount r4 - order.discount_amount r4\<rparr>
                       else x) (orders d)\<rparr>"
    by (simp add: Order_get_object
        OrderViewSet_confirm_stored [where r = r4 and rq = rq and now = now])
qed

theorem C2_transitions_unguarded_witness:
  "(get_object ReceivingViewSet_filterset_fields Receiving_fields receiving.pk 1
        (receivings finished_db) = Inr (Some approved_receiving)
      \<and> receiving.receiving_no approved_receiving \<noteq> []
      \<and> distinct (map receiving.receiving_no (receivings finished_db))
      \<and> list_all convertible (Receiving_datetimes approved_receiving))
   \<and> receiving.status approved_receiving = ''approved''
   \<and> ReceivingViewSet_reject year_2025 (request_by 7) 1 finished_db
       = (Response500 NameError,
          finished_db\<lparr>receivings :=
            [approved_receiving\<lparr>receiving.status := ''rejected'',
                                receiving.rejection_reason := Some []\<rparr>]\<rparr>)
   \<and> (get_object OrderViewSet_filterset_fields Order_fields order.pk 1 (orders finished_db)
        = Inr (Some delivered_order)
      \<and> order.order_no delivered_order \<noteq> []
      \<and> distinct (map order.order_no (orders finished_db))
      \<and> list_all convertible (Order_datetimes delivered_order))
   \<and> order.status delivered_order = ''delivered''
   \<and> OrderViewSet_confirm year_2025 (request_by 7) 1 finished_db
       = (Response500 NameError,
          finished_db\<lparr>orders := [delivered_order\<lparr>order.status := ''confirmed''\<rparr>]\<rparr>)
   \<and> fst (ShipmentViewSet_pack year_2025 (request_by 7) 1 finished_db)
       = Response500 ValidationError
   \<and> fst (ReturnViewSet_inspect year_2025 (request_by 7) 1 finished_db)
       = Response500 ValidationError"
proof -
  have h1: "get_object ReceivingViewSet_filterset_fields Receiving_fields receiving.pk 1
        (receivings finished_db) = Inr (Some approved_receiving)
      \<and> receiving.receiving_no approved_receiving \<noteq> []
      \<and> distinct (map receiving.receiving_no (receivings finished_db))
      \<and> list_all convertible (Receiving_datetimes approved_receiving)"
    by (simp add: Receiving_get_object finished_db_def approved_receiving_def
        Receiving_datetimes_def convertible_def)
  have h4: "get_object OrderViewSet_filterset_fields Order_fields order.pk 1 (orders finished_db)
        = Inr (Some delivered_order)
      \<and> order.order_no delivered_order \<noteq> []
      \<and> distinct (map order.order_no (orders finished_db))
      \<and> list_all convertible (Order_datetimes delivered_order)"
    by (simp add: Order_get_object finished_db_def delivered_order_def
        Order_datetimes_def convertible_def)
  have s1: "receiving.status approved_receiving = ''approved''"
    by (simp add: approved_receiving_def)
  have s4: "order.status delivered_order = ''delivered''"
    by (simp add: delivered_order_def)
  have f1: "fst (ReceivingViewSet_reject year_2025 (request_by 7) 1 finished_db)
      = Response500 NameError"
    using h1
    by (simp add: Receiving_get_object request_by_def
        ReceivingViewSet_reject_stored [where r = approved_receiving])
  have f4: "fst (OrderViewSet_confirm year_2025 (request_by 7) 1 finished_db)
      = Response500 NameError"
    using h4
    by (simp add: Order_get_object OrderViewSet_confirm_stored [where r = delivered_order])
  have e2: "fst (ShipmentViewSet_pack year_2025 (request_by 7) 1 finished_db)
       = Response500 ValidationError"
    by (simp add: ShipmentViewSet_pack_def Shipment_get_object Shipment_save_def
        document_save_def model_save_def Shipment_datetimes_def convertible_def respond_def
        finished_db_def delivered_shipment_def)
  have e3: "fst (ReturnViewSet_inspect year_2025 (request_by 7) 1 finished_db)
       = Response500 ValidationError"
    by (simp add: ReturnViewSet_inspect_def Return_get_object Return_save_def
        document_save_def model_save_def Return_datetimes_def convertible_def respond_def
        finished_db_def processed_return_def)
  have t: "delivered_order\<lparr>order.status := ''confirmed'',
             order.total_amount := order.subtotal delivered_order
               + order.tax_amount delivered_order + order.shipping_amount delivered_order
               - order.discount_amount delivered_order\<rparr>
           = delivered_order\<lparr>order.status := ''confirmed''\<rparr>"
    by (simp add: delivered_order_def)
  have o: "orders finished_db = [delivered_order]" "receivings finished_db = [approved_receiving]"
    by (simp_all add: finished_db_def)
  have pk: "order.pk delivered_order = Some 1" "receiving.pk approved_receiving = Some 1"
    by (simp_all add: delivered_order_def approved_receiving_def)
  from C2_transitions_unguarded [where ?k1.0 = 1 and ?k4.0 = 1 and d = finished_db
      and ?r1.0 = approved_receiving and ?r4.0 = delivered_order and now = year_2025
      and rq = "request_by 7"] h1 h4
  have "snd (ReceivingViewSet_reject year_2025 (request_by 7) 1 finished_db) =
      finished_db\<lparr>receivings :=
            [approved_receiving\<lparr>receiving.status := ''rejected'',
                                receiving.rejection_reason := Some []\<rparr>]\<rparr>"
    and "snd (OrderViewSet_confirm year_2025 (request_by 7) 1 finished_db) =
      finished_db\<lparr>orders := [delivered_order\<lparr>order.status := ''confirmed''\<rparr>]\<rparr>"
    by (simp_all add: o pk t request_by_def)
  with f1 f4 h1 h4 s1 s4 e2 e3 show ?thesis
    by (simp add: prod_eq_iff)
qed

section \<open>The low stock report\<close>

text \<open>
  C8 (as stated, refuted): a stock row with 5 available, whose product has reorder point 3
  and a stock buffer with minimum quantity 10, is at or below the buffer minimum, yet the
  low stock report is empty.
\<close>

theorem C8_buffer_minimum_ignored:
  "low_stock_report
     (empty_db\<lparr>products := [\<lparr>product.pk = Some 5, name = ''Bolt'', sku = ''B-1'',
                               minimum_stock = 0, reorder_point = 3\<rparr>],
               warehouses := [\<lparr>warehouse.pk = Some 1, name = ''Main''\<rparr>],
               stocks := [\<lparr>stock.pk = Some 1, product_id = 5, warehouse_id = 1,
                             location_id = 1, quantity_available = 5, quantity_reserved = 0,
                             quantity_allocated = 0, lot_number = None, unit_cost = None,
                             total_value = None\<rparr>],
               stock_buffers := [\<lparr>stock_buffer.pk = Some 1, product_id = 5,
                                    warehouse_id = 1, minimum_quantity = 10\<rparr>]\<rparr>)
   = []
   \<and> (5 :: nat) \<le> 10 \<and> \<not> (5 :: nat) \<le> 3"
  by (simp add: low_stock_report_def low_stock_items_def stock_join_def)

lemma sorted_map_max:
  fixes f :: "'a \<Rightarrow> int"
  shows "sorted (map f xs) \<Longrightarrow> sorted (map (\<lambda>x. max 0 (f x)) xs)"
  by (induction xs) (auto simp: max_def)

lemma low_stock_items_iff:
  "(s, p, w) \<in> set (low_stock_items d) \<longleftrightarrow>
     s \<in> set (stocks d)
     \<and> p \<in> set (products d) \<and> product.pk p = Some (stock.product_id s)
     \<and> w \<in> set (warehouses d) \<and> warehouse.pk w = Some (stock.warehouse_id s)
     \<and> stock.quantity_available s \<le> product.reorder_point p"
  by (auto simp: low_stock_items_def stock_join_def)

lemma low_stock_report_sorted:
  "sorted (map low_stock_entry.shortage (low_stock_report d))"
proof -
  have "map low_stock_entry.shortage (low_stock_report d)
      = map (\<lambda>row. max 0 (row_shortage row)) (low_stock_items d)"
    by (simp add: low_stock_report_def report_entry_def split_def)
  moreover have "sorted (map row_shortage (low_stock_items d))"
    by (simp add: low_stock_items_def)
  ultimately show ?thesis
    by (simp add: sorted_map_max)
qed

text \<open>
  C8 (amended): a stock row \<open>s\<close> is reported with product \<open>p\<close> and warehouse \<open>w\<close> exactly
  when \<open>s\<close> is a stock row, \<open>p\<close> is its product, \<open>w\<close> is its warehouse and the available
  quantity of \<open>s\<close> is at most the reorder point of \<open>p\<close>; its entry shows the product, the
  warehouse, the available quantity and the shortage, reorder point minus available
  quantity; the report has one entry for each such row, in the order of the shortage; and
  the stock buffers have no influence on it.
\<close>

theorem C8_low_stock_report_rows:
  "((s, p, w) \<in> set (low_stock_items d) \<longleftrightarrow>
      s \<in> set (stocks d)
      \<and> p \<in> set (products d) \<and> product.pk p = Some (stock.product_id s)
      \<and> w \<in> set (warehouses d) \<and> warehouse.pk w = Some (stock.warehouse_id s)
      \<and> stock.quantity_available s \<le> product.reorder_point p)
   \<and> ((s, p, w) \<in> set (low_stock_items d) \<longrightarrow>
        report_entry (s, p, w) =
          \<lparr>low_stock_entry.product_id = product.pk p,
           product_name = product.name p,
           product_sku = product.sku p,
           minimum_stock = product.minimum_stock p,
           current_quantity = stock.quantity_available s,
           shortage = int (product.reorder_point p) - int (stock.quantity_available s),
           warehouse_name = warehouse.name w\<rparr>)
   \<and> low_stock_report d = map report_entry (low_stock_items d)
   \<and> sorted (map low_stock_entry.shortage (low_stock_report d))
   \<and> low_stock_report (d\<lparr>stock_buffers := buffers\<rparr>) = low_stock_report d"
proof (intro conjI impI)
  show "(s, p, w) \<in> set (low_stock_items d) \<longleftrightarrow>
      s \<in> set (stocks d)
      \<and> p \<in> set (products d) \<and> product.pk p = Some (stock.product_id s)
      \<and> w \<in> set (warehouses d) \<and> warehouse.pk w = Some (stock.warehouse_id s)
      \<and> stock.quantity_available s \<le> product.reorder_point p"
    by (rule low_stock_items_iff)
  show "low_stock_report d = map report_entry (low_stock_items d)"
    by (simp add: low_stock_report_def)
  show "sorted (map low_stock_entry.shortage (low_stock_report d))"
    by (rule low_stock_report_sorted)
  show "low_stock_report (d\<lparr>stock_buffers := buffers\<rparr>) = low_stock_report d"
    by (simp add: low_stock_report_def low_stock_items_def stock_join_def)
next
  assume "(s, p, w) \<in> set (low_stock_items d)"
  then have "stock.quantity_available s \<le> product.reorder_point p"
    by (simp add: low_stock_items_iff)
  then show "report_entry (s, p, w) =
          \<lparr>low_stock_entry.product_id = product.pk p,
           product_name = product.name p,
           product_sku = product.sku p,
           minimum_stock = product.minimum_stock p,
           current_quantity = stock.quantity_available s,
           shortage = int (product.reorder_point p) - int (stock.quantity_available s),
           warehouse_name = warehouse.name w\<rparr>"
    by (simp add: report_entry_def row_shortage_def)
qed

theorem C8_low_stock_report_rows_witness:
  "(stock_of 2 6 5, nut, main_warehouse) \<in> set (low_stock_items report_db)
   \<and> (stock_of 1 5 5, bolt, main_warehouse) \<notin> set (low_stock_items report_db)
   \<and> report_entry (stock_of 2 6 5, nut, main_warehouse) =
        \<lparr>low_stock_entry.product_id = Some 6, product_name = ''Nut'', product_sku = ''N-1'',
         minimum_stock = 4, current_quantity = 5, shortage = 5, warehouse_name = ''Main''\<rparr>
   \<and> low_stock_report report_db =
        [\<lparr>low_stock_entry.product_id = Some 5, product_name = ''Bolt'',
          product_sku = ''B-1'', minimum_stock = 2, current_quantity = 3, shortage = 0,
          warehouse_name = ''Main''\<rparr>,
         \<lparr>low_stock_entry.product_id = Some 6, product_name = ''Nut'', product_sku = ''N-1'',
          minimum_stock = 4, current_quantity = 5, shortage = 5, warehouse_name = ''Main''\<rparr>]
   \<and> low_stock_report (report_db\<lparr>stock_buffers := []\<rparr>) = low_stock_report report_db"
proof -
  have items: "low_stock_items report_db =
      [(stock_of 3 5 3, bolt, main_warehouse), (stock_of 2 6 5, nut, main_warehouse)]"
    by (simp add: low_stock_items_def stock_join_def report_db_def empty_db_def stock_of_def
        bolt_def nut_def main_warehouse_def row_shortage_def)
  have neq: "stock_of 1 5 5 \<noteq> stock_of 3 5 3" "stock_of 1 5 5 \<noteq> stock_of 2 6 5"
    by (simp_all add: stock_of_def)
  from C8_low_stock_report_rows [of "stock_of 2 6 5" nut main_warehouse report_db "[]"]
  show ?thesis
    by (simp add: items neq report_entry_def row_shortage_def stock_of_def nut_def bolt_def
        main_warehouse_def)
qed

section \<open>The status of a transfer\<close>






end
